theory Spec2Isabelle
  imports Main "HOL-Library.AList" "HOL-Library.Sublist"
begin

section \<open>Configuration store (bin/config.js)\<close>

text \<open>
  A configured source, as the JSON document and \<^verbatim>\<open>addSource\<close> have it: \<^verbatim>\<open>name\<close> and
  \<^verbatim>\<open>type\<close> are strings, every other key may be missing (\<open>None\<close> is JavaScript's
  \<^verbatim>\<open>undefined\<close>, which \<^verbatim>\<open>writeJson\<close> leaves out of the document).
\<close>

record source =
  src_name :: string
  src_type :: string
  src_url :: "string option"
  src_path :: "string option"
  src_branch :: "string option"
  src_default :: "bool option"

record cache_config =
  cache_enabled :: bool
  cache_ttl :: int

record config =
  cfg_sources :: "source list"
  cfg_cache :: cache_config

text \<open>
  The persisted document may carry only some of the top-level keys; a file whose content
  does not parse makes \<^verbatim>\<open>readJson\<close> throw.
\<close>

record document =
  doc_sources :: "source list option"
  doc_cache :: "cache_config option"

datatype config_file = Unparsable | Doc document

datatype config_location = Cwd | Home

text \<open>
  The two places \<^verbatim>\<open>getConfigPath\<close> looks at, and whether the file system accepts a write
  (\<open>Some msg\<close>: \<^verbatim>\<open>writeJson\<close> throws an error with that message).
\<close>

record config_store =
  cwd_config :: "config_file option"
  home_config :: "config_file option"
  write_error :: "string option"

text \<open>
  The options object the command line hands to \<^verbatim>\<open>addSource\<close>: the keys \<^verbatim>\<open>branch\<close>,
  \<^verbatim>\<open>path\<close> and \<^verbatim>\<open>default\<close>, each possibly \<^verbatim>\<open>undefined\<close>.
\<close>

record source_options =
  opt_branch :: "string option"
  opt_path :: "string option"
  opt_default :: "bool option"

definition getConfigPath :: "config_store \<Rightarrow> config_location" where
  "getConfigPath st = (if cwd_config st \<noteq> None then Cwd else Home)"

definition defaultConfig :: config where
  "defaultConfig =
     \<lparr>cfg_sources =
        [\<lparr>src_name = ''local'', src_type = ''local'', src_url = None,
          src_path = Some ''./templates'', src_branch = None, src_default = Some True\<rparr>],
      cfg_cache = \<lparr>cache_enabled = True, cache_ttl = 3600000\<rparr>\<rparr>"

definition file_at :: "config_store \<Rightarrow> config_location \<Rightarrow> config_file option" where
  "file_at st loc = (case loc of Cwd \<Rightarrow> cwd_config st | Home \<Rightarrow> home_config st)"

text \<open>
  \<^verbatim>\<open>{ ...defaultConfig, ...config }\<close>: a shallow merge, persisted top-level keys win.
  Top-level keys other than \<^verbatim>\<open>sources\<close> and \<^verbatim>\<open>cache\<close> are not modelled. Every command of
  the command line runs in a process of its own, so \<^verbatim>\<open>defaultConfig\<close> is the literal of the
  module whenever \<^verbatim>\<open>loadConfig\<close> falls back to it.
\<close>

definition merge_defaults :: "document \<Rightarrow> config" where
  "merge_defaults d =
     \<lparr>cfg_sources = (case doc_sources d of None \<Rightarrow> cfg_sources defaultConfig | Some ss \<Rightarrow> ss),
      cfg_cache = (case doc_cache d of None \<Rightarrow> cfg_cache defaultConfig | Some c \<Rightarrow> c)\<rparr>"

definition loadConfig :: "config_store \<Rightarrow> config" where
  "loadConfig st =
     (case file_at st (getConfigPath st) of
        None \<Rightarrow> defaultConfig
      | Some Unparsable \<Rightarrow> defaultConfig
      | Some (Doc d) \<Rightarrow> merge_defaults d)"

definition write_at :: "config_store \<Rightarrow> config_location \<Rightarrow> config_file \<Rightarrow> config_store" where
  "write_at st loc f =
     (case loc of Cwd \<Rightarrow> st\<lparr>cwd_config := Some f\<rparr> | Home \<Rightarrow> st\<lparr>home_config := Some f\<rparr>)"

definition saveConfig :: "config \<Rightarrow> config_store \<Rightarrow> string + (config_location \<times> config_store)" where
  "saveConfig cfg st =
     (let configPath = getConfigPath st in
      case write_error st of
        Some msg \<Rightarrow> Inl msg
      | None \<Rightarrow>
          Inr (configPath,
               write_at st configPath
                 (Doc \<lparr>doc_sources = Some (cfg_sources cfg), doc_cache = Some (cfg_cache cfg)\<rparr>)))"

text \<open>\<^verbatim>\<open>Array.prototype.findIndex\<close>: the first index whose element passes, \<open>-1\<close> if none does.\<close>

fun findIndex :: "('a \<Rightarrow> bool) \<Rightarrow> 'a list \<Rightarrow> int" where
  "findIndex P [] = -1"
| "findIndex P (x # xs) =
     (if P x then 0 else (let i = findIndex P xs in if i < 0 then -1 else i + 1))"

definition addSource ::
  "string \<Rightarrow> string \<Rightarrow> string \<Rightarrow> source_options \<Rightarrow> config_store \<Rightarrow> (string + source) \<times> config_store"
where
  "addSource name type url options st =
     (let config = loadConfig st;
          existingIndex = findIndex (\<lambda>s. src_name s = name) (cfg_sources config);
          source = \<lparr>src_name = name, src_type = type, src_url = Some url,
                    src_path = opt_path options, src_branch = opt_branch options,
                    src_default = opt_default options\<rparr>;
          config' =
            (if existingIndex \<ge> 0
             then config\<lparr>cfg_sources := (cfg_sources config)[nat existingIndex := source]\<rparr>
             else config\<lparr>cfg_sources := cfg_sources config @ [source]\<rparr>)
      in case saveConfig config' st of
           Inl e \<Rightarrow> (Inl e, st)
         | Inr (p, st') \<Rightarrow> (Inr source, st'))"

definition not_found_message :: "string \<Rightarrow> string" where
  "not_found_message name = ''Source '' @ [CHR 0x27] @ name @ [CHR 0x27] @ '' not found''"

definition removeSource :: "string \<Rightarrow> config_store \<Rightarrow> (string + bool) \<times> config_store" where
  "removeSource name st =
     (let config = loadConfig st;
          initialLength = length (cfg_sources config);
          config' = config\<lparr>cfg_sources := filter (\<lambda>s. src_name s \<noteq> name) (cfg_sources config)\<rparr>
      in if length (cfg_sources config') = initialLength
         then (Inl (not_found_message name), st)
         else (case saveConfig config' st of
                 Inl e \<Rightarrow> (Inl e, st)
               | Inr (p, st') \<Rightarrow> (Inr True, st')))"

definition getSources :: "config_store \<Rightarrow> source list" where
  "getSources st = cfg_sources (loadConfig st)"

section \<open>JavaScript strings and Node paths\<close>

text \<open>
  \<^verbatim>\<open>String.prototype.includes\<close>, \<^verbatim>\<open>replace\<close> with a string pattern (which replaces the
  first occurrence only), \<^verbatim>\<open>endsWith\<close> and \<^verbatim>\<open>Array.prototype.join\<close>.
\<close>

fun str_includes :: "string \<Rightarrow> string \<Rightarrow> bool" where
  "str_includes [] sub = (sub = [])"
| "str_includes (c # cs) sub = (prefix sub (c # cs) \<or> str_includes cs sub)"

fun str_replace :: "string \<Rightarrow> string \<Rightarrow> string \<Rightarrow> string" where
  "str_replace [] pat rep = (if pat = [] then rep else [])"
| "str_replace (c # cs) pat rep =
     (if prefix pat (c # cs) then rep @ drop (length pat) (c # cs)
      else c # str_replace cs pat rep)"

definition str_endsWith :: "string \<Rightarrow> string \<Rightarrow> bool" where
  "str_endsWith s suf = suffix suf s"

definition newline :: string where
  "newline = [CHR 0x0A]"

fun array_join :: "string \<Rightarrow> string list \<Rightarrow> string" where
  "array_join sep [] = []"
| "array_join sep [x] = x"
| "array_join sep (x # y # ys) = x @ sep @ array_join sep (y # ys)"

text \<open>
  Every path the program builds starts from an absolute directory (the home directory,
  the package root), so a path is the list of its components below the root, already
  normalised. \<^verbatim>\<open>path.join\<close> concatenates its arguments with \<^verbatim>\<open>/\<close> and normalises: empty
  and \<^verbatim>\<open>.\<close> components are dropped, \<^verbatim>\<open>..\<close> removes the component before it (and
  nothing at the root). A trailing separator, which Node keeps, is not represented: no
  path of the program ends in one where it is used.
\<close>

type_synonym path = "string list"

fun split_on :: "char \<Rightarrow> string \<Rightarrow> string list" where
  "split_on sep [] = [[]]"
| "split_on sep (c # cs) =
     (if c = sep then [] # split_on sep cs
      else (case split_on sep cs of [] \<Rightarrow> [[c]] | w # ws \<Rightarrow> (c # w) # ws))"

definition path_step :: "path \<Rightarrow> string \<Rightarrow> path" where
  "path_step p seg =
     (if seg = [] \<or> seg = ''.'' then p else if seg = ''..'' then butlast p else p @ [seg])"

definition path_join :: "path \<Rightarrow> string list \<Rightarrow> path" where
  "path_join base segs = foldl path_step base (concat (map (split_on CHR ''/'') segs))"

definition path_dirname :: "path \<Rightarrow> path" where
  "path_dirname p = butlast p"

definition path_isAbsolute :: "string \<Rightarrow> bool" where
  "path_isAbsolute s = (case s of [] \<Rightarrow> False | c # cs \<Rightarrow> c = CHR ''/'')"

text \<open>
  \<^verbatim>\<open>path.parse(file).name\<close> for a directory entry (a name without separators): the text
  before the last dot, except that a name whose only dot is its first character, and the
  name \<^verbatim>\<open>..\<close>, have no extension.
\<close>

fun last_dot :: "string \<Rightarrow> nat option" where
  "last_dot [] = None"
| "last_dot (c # cs) =
     (case last_dot cs of
        Some i \<Rightarrow> Some (Suc i)
      | None \<Rightarrow> (if c = CHR ''.'' then Some 0 else None))"

definition path_parse_name :: "string \<Rightarrow> string" where
  "path_parse_name base =
     (case last_dot base of
        None \<Rightarrow> base
      | Some d \<Rightarrow> if d = 0 \<or> base = ''..'' then base else take d base)"

section \<open>The environment: file system, clock, HTTP\<close>

text \<open>
  The file system is a tree: a file has its content and its modification time, a
  directory its modification time and its entries in the order \<^verbatim>\<open>readdir\<close> lists them.
  Times are milliseconds, as \<^verbatim>\<open>Date.now()\<close> and \<^verbatim>\<open>mtime.getTime()\<close> give them.
\<close>

datatype node = File string int | Dir int "(string \<times> node) list"

datatype fs_error = ENOENT | ENOTDIR | EISDIR | EEXIST

text \<open>The text of \<^verbatim>\<open>error.message\<close>, without the system call and path Node appends.\<close>

fun fs_message :: "fs_error \<Rightarrow> string" where
  "fs_message ENOENT = ''ENOENT: no such file or directory''"
| "fs_message ENOTDIR = ''ENOTDIR: not a directory''"
| "fs_message EISDIR = ''EISDIR: illegal operation on a directory''"
| "fs_message EEXIST = ''EEXIST: file already exists''"

fun lookup :: "node \<Rightarrow> path \<Rightarrow> node option" where
  "lookup n [] = Some n"
| "lookup (File c m) (x # xs) = None"
| "lookup (Dir m es) (x # xs) =
     (case map_of es x of None \<Rightarrow> None | Some ch \<Rightarrow> lookup ch xs)"

definition pathExists :: "node \<Rightarrow> path \<Rightarrow> bool" where
  "pathExists root p = (lookup root p \<noteq> None)"

definition stat_mtime :: "node \<Rightarrow> path \<Rightarrow> fs_error + int" where
  "stat_mtime root p =
     (case lookup root p of
        None \<Rightarrow> Inl ENOENT
      | Some (File c m) \<Rightarrow> Inr m
      | Some (Dir m es) \<Rightarrow> Inr m)"

definition readFile :: "node \<Rightarrow> path \<Rightarrow> fs_error + string" where
  "readFile root p =
     (case lookup root p of
        None \<Rightarrow> Inl ENOENT
      | Some (File c m) \<Rightarrow> Inr c
      | Some (Dir m es) \<Rightarrow> Inl EISDIR)"

definition readdir :: "node \<Rightarrow> path \<Rightarrow> fs_error + string list" where
  "readdir root p =
     (case lookup root p of
        None \<Rightarrow> Inl ENOENT
      | Some (File c m) \<Rightarrow> Inl ENOTDIR
      | Some (Dir m es) \<Rightarrow> Inr (map fst es))"

text \<open>
  \<^verbatim>\<open>fs.ensureDir\<close> (\<^verbatim>\<open>mkdir -p\<close>) at time \<open>t\<close>: missing directories are created along the
  path; a file in the way is an error.
\<close>

fun ensureDir :: "int \<Rightarrow> path \<Rightarrow> node \<Rightarrow> fs_error + node" where
  "ensureDir t [] (Dir m es) = Inr (Dir m es)"
| "ensureDir t [] (File c m) = Inl EEXIST"
| "ensureDir t (x # xs) (File c m) = Inl ENOTDIR"
| "ensureDir t (x # xs) (Dir m es) =
     (case ensureDir t xs (case map_of es x of None \<Rightarrow> Dir t [] | Some ch \<Rightarrow> ch) of
        Inl e \<Rightarrow> Inl e
      | Inr ch' \<Rightarrow> Inr (Dir m (AList.update x ch' es)))"

text \<open>
  \<^verbatim>\<open>fs.writeFile\<close> at time \<open>t\<close>: creates or overwrites the file in an existing directory;
  a directory at the path, a file on the way or a missing parent is an error.
\<close>

fun writeFile :: "int \<Rightarrow> path \<Rightarrow> string \<Rightarrow> node \<Rightarrow> fs_error + node" where
  "writeFile t [] c (File c0 m) = Inr (File c t)"
| "writeFile t [] c (Dir m es) = Inl EISDIR"
| "writeFile t (x # xs) c (File c0 m) = Inl ENOTDIR"
| "writeFile t (x # xs) c (Dir m es) =
     (case map_of es x of
        None \<Rightarrow>
          (if xs = [] then Inr (Dir m (AList.update x (File c t) es)) else Inl ENOENT)
      | Some ch \<Rightarrow>
          (case writeFile t xs c ch of
             Inl e \<Rightarrow> Inl e
           | Inr ch' \<Rightarrow> Inr (Dir m (AList.update x ch' es))))"

text \<open>
  What \<^verbatim>\<open>fetch(url)\<close> does: the promise rejects with a message, or resolves to a response
  with its status code, status text and body. \<^verbatim>\<open>response.ok\<close> is a status in 200..299.
\<close>

datatype http_result = Rejected string | Response nat string string

definition response_ok :: "nat \<Rightarrow> bool" where
  "response_ok status = (200 \<le> status \<and> status < 300)"

text \<open>
  The world one call runs in. The clock does not advance inside a call; \<open>homedir\<close> is
  \<^verbatim>\<open>os.homedir()\<close>.
\<close>

record world =
  fs :: node
  now :: int
  homedir :: path
  http :: "string \<Rightarrow> http_result"

section \<open>Cache manager (bin/fetcher.js)\<close>

definition getFileExtension :: "string \<Rightarrow> string" where
  "getFileExtension type = (if type = ''component'' then ''.tsx'' else ''.ts'')"

definition pluralizeType :: "string \<Rightarrow> string" where
  "pluralizeType type = type @ ''s''"

definition getCacheDir :: "world \<Rightarrow> path" where
  "getCacheDir w = path_join (homedir w) [''.ampackage'', ''cache'']"

definition getCachePath :: "world \<Rightarrow> source \<Rightarrow> string \<Rightarrow> string \<Rightarrow> path" where
  "getCachePath w source type name =
     path_join (getCacheDir w) [src_name source, pluralizeType type, name @ getFileExtension type]"

text \<open>The parameter \<open>ttl\<close> is optional: \<open>None\<close> is a call without it, which takes the default.\<close>

definition isCacheValid :: "world \<Rightarrow> path \<Rightarrow> int option \<Rightarrow> bool" where
  "isCacheValid w cachePath ttl =
     (case stat_mtime (fs w) cachePath of
        Inl e \<Rightarrow> False
      | Inr mtime \<Rightarrow>
          (let age = now w - mtime
           in age < (case ttl of None \<Rightarrow> 3600000 | Some t \<Rightarrow> t)))"

text \<open>\<open>Inr None\<close> is the \<^verbatim>\<open>null\<close> of a miss; \<open>Inl\<close> an exception of \<^verbatim>\<open>readFile\<close>.\<close>

definition getCachedFile ::
  "world \<Rightarrow> source \<Rightarrow> string \<Rightarrow> string \<Rightarrow> int option \<Rightarrow> string + string option" where
  "getCachedFile w source type name ttl =
     (let cachePath = getCachePath w source type name
      in if pathExists (fs w) cachePath \<and> isCacheValid w cachePath ttl
         then (case readFile (fs w) cachePath of
                 Inl e \<Rightarrow> Inl (fs_message e)
               | Inr content \<Rightarrow> Inr (Some content))
         else Inr None)"

definition setCachedFile ::
  "source \<Rightarrow> string \<Rightarrow> string \<Rightarrow> string \<Rightarrow> world \<Rightarrow> (string + unit) \<times> world" where
  "setCachedFile source type name content w =
     (let cachePath = getCachePath w source type name
      in case ensureDir (now w) (path_dirname cachePath) (fs w) of
           Inl e \<Rightarrow> (Inl (fs_message e), w)
         | Inr fs1 \<Rightarrow>
             (case writeFile (now w) cachePath content fs1 of
                Inl e \<Rightarrow> (Inl (fs_message e), w\<lparr>fs := fs1\<rparr>)
              | Inr fs2 \<Rightarrow> (Inr (), w\<lparr>fs := fs2\<rparr>)))"

definition is_template_file :: "string \<Rightarrow> bool" where
  "is_template_file file = (str_endsWith file ''.ts'' \<or> str_endsWith file ''.tsx'')"

definition listCachedTemplates :: "world \<Rightarrow> source \<Rightarrow> string \<Rightarrow> string + string list" where
  "listCachedTemplates w source type =
     (let typeDir = path_join (getCacheDir w) [src_name source, pluralizeType type]
      in if \<not> pathExists (fs w) typeDir then Inr []
         else (case readdir (fs w) typeDir of
                 Inl e \<Rightarrow> Inl (fs_message e)
               | Inr files \<Rightarrow> Inr (map path_parse_name (filter is_template_file files))))"

section \<open>Source fetchers (bin/fetcher.js)\<close>

definition undefined_includes_message :: string where
  "undefined_includes_message =
     ''Cannot read properties of undefined (reading '' @ [CHR 0x27] @ ''includes'' @ [CHR 0x27] @ '')''"

definition GitHubFetcher_buildRawUrl :: "source \<Rightarrow> string \<Rightarrow> string \<Rightarrow> string + string" where
  "GitHubFetcher_buildRawUrl source type name =
     (let branch = (case src_branch source of None \<Rightarrow> ''main'' | Some b \<Rightarrow> b);
          basePath = (case src_path source of None \<Rightarrow> ''templates'' | Some p \<Rightarrow> p)
      in case src_url source of
           None \<Rightarrow> Inl undefined_includes_message
         | Some url \<Rightarrow>
             if str_includes url ''github.com''
             then (let repoPath = str_replace (str_replace url ''https://github.com/'' []) ''.git'' []
                   in Inr (''https://raw.githubusercontent.com/'' @ repoPath @ ''/'' @ branch @ ''/''
                           @ basePath @ ''/'' @ pluralizeType type @ ''/'' @ name
                           @ getFileExtension type))
             else Inl ''Invalid GitHub URL format'')"

text \<open>The \<^verbatim>\<open>try\<close> block of \<^verbatim>\<open>GitHubFetcher.fetchFile\<close>; its \<^verbatim>\<open>catch\<close> wraps every message.\<close>

definition GitHubFetcher_download ::
  "source \<Rightarrow> string \<Rightarrow> string \<Rightarrow> string \<Rightarrow> world \<Rightarrow> (string + string) \<times> world" where
  "GitHubFetcher_download source type name url w =
     (let wrap = (\<lambda>msg. ''Failed to fetch from GitHub: '' @ msg)
      in case http w url of
           Rejected msg \<Rightarrow> (Inl (wrap msg), w)
         | Response status statusText body \<Rightarrow>
             if \<not> response_ok status
             then (if status = 404
                   then (Inl (wrap (''Template not found: '' @ type @ ''/'' @ name)), w)
                   else (Inl (wrap (''Failed to fetch: '' @ statusText)), w))
             else (case setCachedFile source type name body w of
                     (Inl e, w') \<Rightarrow> (Inl (wrap e), w')
                   | (Inr u, w') \<Rightarrow> (Inr body, w')))"

text \<open>
  \<^verbatim>\<open>if (cached) return cached\<close>: a miss and an empty cached file both fall through.
\<close>

definition GitHubFetcher_fetchFile ::
  "source \<Rightarrow> string \<Rightarrow> string \<Rightarrow> bool \<Rightarrow> world \<Rightarrow> (string + string) \<times> world" where
  "GitHubFetcher_fetchFile source type name useCache w =
     (case (if useCache then getCachedFile w source type name (Some 3600000) else Inr None) of
        Inl e \<Rightarrow> (Inl e, w)
      | Inr cached \<Rightarrow>
          (if cached \<noteq> None \<and> cached \<noteq> Some []
           then (Inr (the cached), w)
           else (case GitHubFetcher_buildRawUrl source type name of
                   Inl e \<Rightarrow> (Inl e, w)
                 | Inr url \<Rightarrow> GitHubFetcher_download source type name url w)))"

definition GitHubFetcher_listTemplates ::
  "source \<Rightarrow> string \<Rightarrow> bool \<Rightarrow> world \<Rightarrow> string + string list" where
  "GitHubFetcher_listTemplates source type useCache w =
     (if useCache then listCachedTemplates w source type else Inr [])"

definition NpmFetcher_fetchFile ::
  "source \<Rightarrow> string \<Rightarrow> string \<Rightarrow> bool \<Rightarrow> world \<Rightarrow> string + string" where
  "NpmFetcher_fetchFile source type name useCache w =
     (case (if useCache then getCachedFile w source type name (Some 3600000) else Inr None) of
        Inl e \<Rightarrow> Inl e
      | Inr cached \<Rightarrow>
          (if cached \<noteq> None \<and> cached \<noteq> Some []
           then Inr (the cached)
           else Inl ''NPM source fetching not yet implemented''))"

definition NpmFetcher_listTemplates ::
  "source \<Rightarrow> string \<Rightarrow> bool \<Rightarrow> world \<Rightarrow> string + string list" where
  "NpmFetcher_listTemplates source type useCache w =
     (if useCache then listCachedTemplates w source type else Inr [])"

text \<open>
  \<^verbatim>\<open>this.source.path || './templates'\<close>: a missing and an empty path take the default.
  An absolute path is returned as it is and normalised by the \<^verbatim>\<open>path.join\<close> of the caller;
  here it is normalised at once.
\<close>

definition LocalFetcher_getLocalPath :: "source \<Rightarrow> path \<Rightarrow> path" where
  "LocalFetcher_getLocalPath source packageRoot =
     (let localPath = (case src_path source of
                         None \<Rightarrow> ''./templates''
                       | Some p \<Rightarrow> if p = [] then ''./templates'' else p)
      in if path_isAbsolute localPath then path_join [] [localPath]
         else path_join packageRoot [localPath])"

definition LocalFetcher_fetchFile ::
  "source \<Rightarrow> path \<Rightarrow> string \<Rightarrow> string \<Rightarrow> world \<Rightarrow> string + string" where
  "LocalFetcher_fetchFile source packageRoot type name w =
     (let templatesDir = LocalFetcher_getLocalPath source packageRoot;
          filePath = path_join templatesDir [pluralizeType type, name @ getFileExtension type]
      in if \<not> pathExists (fs w) filePath
         then Inl (''Template not found: '' @ type @ ''/'' @ name)
         else (case readFile (fs w) filePath of
                 Inl e \<Rightarrow> Inl (fs_message e)
               | Inr content \<Rightarrow> Inr content))"

datatype fetcher = GitHubFetcher source | NpmFetcher source | LocalFetcher source path

definition createFetcher :: "source \<Rightarrow> path \<Rightarrow> fetcher" where
  "createFetcher source packageRoot =
     (if src_type source = ''github'' then GitHubFetcher source
      else if src_type source = ''npm'' then NpmFetcher source
      else LocalFetcher source packageRoot)"

text \<open>The method call \<^verbatim>\<open>fetcher.fetchFile(type, name, useCache)\<close> on whichever class.\<close>

fun fetcher_fetchFile ::
  "fetcher \<Rightarrow> string \<Rightarrow> string \<Rightarrow> bool \<Rightarrow> world \<Rightarrow> (string + string) \<times> world" where
  "fetcher_fetchFile (GitHubFetcher source) type name useCache w =
     GitHubFetcher_fetchFile source type name useCache w"
| "fetcher_fetchFile (NpmFetcher source) type name useCache w =
     (NpmFetcher_fetchFile source type name useCache w, w)"
| "fetcher_fetchFile (LocalFetcher source packageRoot) type name useCache w =
     (LocalFetcher_fetchFile source packageRoot type name w, w)"

section \<open>Resolution engine (bin/fetcher.js)\<close>

text \<open>
  The loop of \<^verbatim>\<open>fetchTemplate\<close>, with the \<^verbatim>\<open>errors\<close> array collected so far. The call
  \<^verbatim>\<open>fetcher.fetchFile(type, name)\<close> leaves \<^verbatim>\<open>useCache\<close> at its default \<^verbatim>\<open>true\<close>.
\<close>

fun fetchTemplate_loop ::
  "source list \<Rightarrow> string \<Rightarrow> string \<Rightarrow> path \<Rightarrow> string list \<Rightarrow> world
   \<Rightarrow> (string + (string \<times> source)) \<times> world" where
  "fetchTemplate_loop [] type name packageRoot errors w =
     (Inl (''Template not found in any source:'' @ newline @ array_join newline errors), w)"
| "fetchTemplate_loop (source # rest) type name packageRoot errors w =
     (case fetcher_fetchFile (createFetcher source packageRoot) type name True w of
        (Inr content, w') \<Rightarrow> (Inr (content, source), w')
      | (Inl message, w') \<Rightarrow>
          fetchTemplate_loop rest type name packageRoot
            (errors @ [src_name source @ '': '' @ message]) w')"

definition fetchTemplate ::
  "source list \<Rightarrow> string \<Rightarrow> string \<Rightarrow> path \<Rightarrow> world
   \<Rightarrow> (string + (string \<times> source)) \<times> world" where
  "fetchTemplate sources type name packageRoot w =
     fetchTemplate_loop sources type name packageRoot [] w"

section \<open>Command line: the add command\<close>

text \<open>
  What the \<^verbatim>\<open>add\<close> command does to resolve one name when no \<^verbatim>\<open>--source\<close> is given:
  \<^verbatim>\<open>const config = await loadConfig(); let sources = config.sources;\<close> and then
  \<^verbatim>\<open>fetchTemplate(sources, type, name, packageRoot)\<close>. Nothing of \<^verbatim>\<open>config.cache\<close> is
  passed on.
\<close>

definition add_resolve ::
  "config_store \<Rightarrow> string \<Rightarrow> string \<Rightarrow> path \<Rightarrow> world
   \<Rightarrow> (string + (string \<times> source)) \<times> world" where
  "add_resolve st type name packageRoot w =
     (let config = loadConfig st;
          sources = cfg_sources config
      in fetchTemplate sources type name packageRoot w)"

section \<open>Example sources, stores and worlds\<close>

definition mk_source :: "string \<Rightarrow> string \<Rightarrow> string option \<Rightarrow> string option \<Rightarrow> source" where
  "mk_source n t u p =
     \<lparr>src_name = n, src_type = t, src_url = u, src_path = p,
      src_branch = None, src_default = None\<rparr>"

definition ex_remote :: source where
  "ex_remote = mk_source ''remote'' ''github'' (Some ''https://github.com/acme/ui.git'') None"

definition ex_pages :: source where
  "ex_pages =
     mk_source ''pages'' ''github'' (Some ''https://github.com/octocat/octocat.github.io.git'') None"

definition ex_registry :: source where
  "ex_registry = mk_source ''registry'' ''npm'' (Some ''@acme/ui'') None"

definition ex_first :: source where
  "ex_first = mk_source ''first'' ''local'' None (Some ''/a'')"

definition ex_second :: source where
  "ex_second = mk_source ''second'' ''local'' None (Some ''/b'')"

definition ex_bundled :: source where
  "ex_bundled = mk_source ''local'' ''local'' None (Some ''./templates'')"

definition offline :: "string \<Rightarrow> http_result" where
  "offline url = Rejected ''getaddrinfo ENOTFOUND raw.githubusercontent.com''"

text \<open>An empty disk at time 1000.\<close>

definition ex_world_empty :: world where
  "ex_world_empty = \<lparr>fs = Dir 0 [], now = 1000, homedir = [''home''], http = offline\<rparr>"

text \<open>Two local template directories, \<^verbatim>\<open>/a\<close> and \<^verbatim>\<open>/b\<close>, each with a \<^verbatim>\<open>Button\<close>.\<close>

definition ex_world_local :: world where
  "ex_world_local =
     \<lparr>fs = Dir 0
        [(''a'', Dir 0 [(''components'', Dir 0 [(''Button.tsx'', File ''A'' 0)])]),
         (''b'', Dir 0 [(''components'', Dir 0 [(''Button.tsx'', File ''B'' 0)])])],
      now = 0, homedir = [''home''], http = offline\<rparr>"

text \<open>
  A cache that holds \<^verbatim>\<open>Button\<close> for the sources \<^verbatim>\<open>remote\<close> and \<^verbatim>\<open>registry\<close>, written at
  time 0 and read at time 5000, with the network down.
\<close>

definition ex_world_cached :: world where
  "ex_world_cached =
     \<lparr>fs = Dir 0
        [(''home'', Dir 0
          [(''.ampackage'', Dir 0
            [(''cache'', Dir 0
              [(''remote'', Dir 0
                 [(''components'', Dir 0 [(''Button.tsx'', File ''cached body'' 0)])]),
               (''registry'', Dir 0
                 [(''components'', Dir 0 [(''Button.tsx'', File ''cached body'' 0)])])])])])],
      now = 5000, homedir = [''home''], http = offline\<rparr>"

text \<open>
  A cache in which a directory stands at the cache path of \<^verbatim>\<open>Button\<close> and a file at the
  place of the \<^verbatim>\<open>hooks\<close> directory, for the source \<^verbatim>\<open>registry\<close>.
\<close>

definition ex_world_cached_dir :: world where
  "ex_world_cached_dir =
     \<lparr>fs = Dir 0
        [(''home'', Dir 0
          [(''.ampackage'', Dir 0
            [(''cache'', Dir 0
              [(''registry'', Dir 0
                 [(''components'', Dir 0 [(''Button.tsx'', Dir 0 [])]),
                  (''hooks'', File ''not a directory'' 0)])])])])],
      now = 5000, homedir = [''home''], http = offline\<rparr>"

text \<open>Two persisted configurations that differ in \<^verbatim>\<open>cache.ttl\<close> only.\<close>

definition ex_store_ttl :: "int \<Rightarrow> config_store" where
  "ex_store_ttl t =
     \<lparr>cwd_config = None,
      home_config = Some (Doc \<lparr>doc_sources = Some [ex_remote],
                               doc_cache = Some \<lparr>cache_enabled = True, cache_ttl = t\<rparr>\<rparr>),
      write_error = None\<rparr>"

section \<open>Properties of the configuration store\<close>

lemma findIndex_none: "findIndex P xs < 0 \<longleftrightarrow> (\<forall>x\<in>set xs. \<not> P x)"
  by (induction xs) (auto simp: Let_def)

lemma findIndex_hit:
  "0 \<le> findIndex P xs \<Longrightarrow> P (xs ! nat (findIndex P xs)) \<and> nat (findIndex P xs) < length xs"
proof (induction xs)
  case Nil
  then show ?case by simp
next
  case (Cons x xs)
  show ?case
  proof (cases "P x")
    case True
    then show ?thesis by simp
  next
    case False
    with Cons.prems have pos: "0 \<le> findIndex P xs"
      by (auto simp: Let_def split: if_splits)
    then have "nat (findIndex P xs + 1) = Suc (nat (findIndex P xs))" by simp
    with False pos Cons.IH show ?thesis by (simp add: Let_def)
  qed
qed

lemma load_after_save:
  "saveConfig cfg st = Inr (p, st') \<Longrightarrow> loadConfig st' = cfg"
  by (cases "cwd_config st")
     (auto simp: saveConfig_def loadConfig_def getConfigPath_def file_at_def write_at_def
                 merge_defaults_def Let_def split: option.splits)

lemma distinct_names_update:
  assumes "distinct (map src_name xs)" "i < length xs" "src_name (xs ! i) = src_name s"
  shows "distinct (map src_name (xs[i := s]))"
proof -
  have "map src_name (xs[i := s]) = (map src_name xs)[i := src_name (xs ! i)]"
    using assms by (simp add: map_update)
  also have "\<dots> = map src_name xs"
    using assms(2) by (simp add: list_update_same_conv)
  finally show ?thesis using assms(1) by simp
qed

lemma count_distinct_name:
  "distinct (map src_name xs) \<Longrightarrow> n \<in> set (map src_name xs) \<Longrightarrow>
   length (filter (\<lambda>s. src_name s = n) xs) = 1"
proof (induction xs)
  case Nil
  then show ?case by simp
next
  case (Cons a xs)
  show ?case
  proof (cases "src_name a = n")
    case True
    with Cons.prems have "n \<notin> src_name ` set xs" by simp
    then have "\<forall>x\<in>set xs. src_name x \<noteq> n" by blast
    then have "filter (\<lambda>s. src_name s = n) xs = []" by (simp add: filter_empty_conv)
    with True show ?thesis by simp
  next
    case False
    with Cons show ?thesis by auto
  qed
qed

text \<open>
  Claim C6. On a configuration whose source names are unique (and whose file can be
  written), \<^verbatim>\<open>addSource\<close> returns the source it built from its arguments; when a source
  of that name exists, the new one replaces it at its list position, otherwise it is
  appended at the end. Afterwards the persisted list holds exactly one source of that
  name, and names are still unique.
\<close>

theorem addSource_replaces_or_appends:
  assumes uniq: "distinct (map src_name (getSources st))"
    and wr: "write_error st = None"
  shows "\<exists>src st'.
           addSource name type url options st = (Inr src, st') \<and>
           src = \<lparr>src_name = name, src_type = type, src_url = Some url,
                  src_path = opt_path options, src_branch = opt_branch options,
                  src_default = opt_default options\<rparr> \<and>
           (if name \<in> src_name ` set (getSources st)
            then \<exists>i < length (getSources st).
                   src_name (getSources st ! i) = name \<and>
                   getSources st' = (getSources st)[i := src]
            else getSources st' = getSources st @ [src]) \<and>
           length (filter (\<lambda>s. src_name s = name) (getSources st')) = 1 \<and>
           distinct (map src_name (getSources st'))"
proof -
  define old where "old = cfg_sources (loadConfig st)"
  define src where "src = \<lparr>src_name = name, src_type = type, src_url = Some url,
                  src_path = opt_path options, src_branch = opt_branch options,
                  src_default = opt_default options\<rparr>"
  define k where "k = findIndex (\<lambda>s. src_name s = name) old"
  define new where "new = (if k \<ge> 0 then old[nat k := src] else old @ [src])"
  define cfg' where "cfg' = (loadConfig st)\<lparr>cfg_sources := new\<rparr>"
  obtain p st' where sv: "saveConfig cfg' st = Inr (p, st')"
    using wr by (auto simp: saveConfig_def Let_def)
  have res: "addSource name type url options st = (Inr src, st')"
    using sv unfolding addSource_def Let_def old_def[symmetric] src_def[symmetric] k_def[symmetric]
    by (cases "0 \<le> k") (simp_all add: cfg'_def new_def)
  have new': "getSources st' = new"
    using load_after_save[OF sv] by (simp add: getSources_def cfg'_def)
  have old': "getSources st = old" by (simp add: getSources_def old_def)
  have d: "distinct (map src_name old)" using uniq old' by simp
  show ?thesis
  proof (cases "k \<ge> 0")
    case True
    then have hit: "src_name (old ! nat k) = name" "nat k < length old"
      using findIndex_hit[of "\<lambda>s. src_name s = name" old] by (simp_all add: k_def)
    have n: "new = old[nat k := src]" using True by (simp add: new_def)
    have mem: "name \<in> src_name ` set old" using hit by (metis imageI nth_mem)
    have sn: "src_name src = name" by (simp add: src_def)
    have d': "distinct (map src_name new)"
      unfolding n using d hit sn by (intro distinct_names_update) simp_all
    have "name \<in> set (map src_name new)"
      unfolding n using hit sn
      by (metis (no_types) length_list_update length_map nth_list_update_eq nth_map nth_mem)
    then have c: "length (filter (\<lambda>s. src_name s = name) new) = 1"
      using d' by (rule count_distinct_name[rotated])
    show ?thesis
      using res new' old' mem hit n c d' by (auto simp: src_def)
  next
    case False
    then have none: "\<forall>x\<in>set old. src_name x \<noteq> name"
      using findIndex_none[of "\<lambda>s. src_name s = name" old] by (simp add: k_def)
    have n: "new = old @ [src]" using False by (simp add: new_def)
    have sn: "src_name src = name" by (simp add: src_def)
    have d': "distinct (map src_name new)" unfolding n using d none sn by auto
    have c: "length (filter (\<lambda>s. src_name s = name) new) = 1"
      unfolding n using none sn by (simp add: filter_empty_conv)
    have nm: "name \<notin> src_name ` set old" using none by auto
    show ?thesis
      using res new' old' nm n c d' by (auto simp: src_def)
  qed
qed

text \<open>
  Claim C7. When no configured source carries the name, \<^verbatim>\<open>removeSource\<close> fails with the
  message \<^verbatim>\<open>Source '<name>' not found\<close> and the store is the one it started from: nothing
  is saved.
\<close>

theorem removeSource_unknown_name:
  assumes "name \<notin> src_name ` set (getSources st)"
  shows "removeSource name st = (Inl (not_found_message name), st)"
proof -
  have "filter (\<lambda>s. src_name s \<noteq> name) (cfg_sources (loadConfig st)) = cfg_sources (loadConfig st)"
    using assms by (auto simp: getSources_def filter_id_conv)
  then show ?thesis by (simp add: removeSource_def Let_def)
qed

text \<open>
  Claim C10. When some configured source carries the name (and the file can be written),
  one call of \<^verbatim>\<open>removeSource\<close> returns \<^verbatim>\<open>true\<close> and saves the document whose sources
  are the old ones without every entry of that name, duplicates included.
\<close>

theorem removeSource_removes_all:
  assumes "name \<in> src_name ` set (getSources st)" and "write_error st = None"
  shows "\<exists>st'. removeSource name st = (Inr True, st') \<and>
           getSources st' = filter (\<lambda>s. src_name s \<noteq> name) (getSources st) \<and>
           name \<notin> src_name ` set (getSources st') \<and>
           file_at st' (getConfigPath st') =
             Some (Doc \<lparr>doc_sources = Some (filter (\<lambda>s. src_name s \<noteq> name) (getSources st)),
                        doc_cache = Some (cfg_cache (loadConfig st))\<rparr>)"
proof -
  define old where "old = cfg_sources (loadConfig st)"
  define cfg' where "cfg' = (loadConfig st)\<lparr>cfg_sources := filter (\<lambda>s. src_name s \<noteq> name) old\<rparr>"
  obtain x where "x \<in> set old" "\<not> src_name x \<noteq> name"
    using assms(1) by (auto simp: getSources_def old_def)
  then have "length (filter (\<lambda>s. src_name s \<noteq> name) old) < length old"
    by (rule length_filter_less)
  then have ne: "length (cfg_sources cfg') \<noteq> length old" by (simp add: cfg'_def)
  obtain p st' where sv: "saveConfig cfg' st = Inr (p, st')"
    using assms(2) by (auto simp: saveConfig_def Let_def)
  have res: "removeSource name st = (Inr True, st')"
    using sv ne unfolding removeSource_def Let_def old_def[symmetric] cfg'_def[symmetric] by simp
  have new': "getSources st' = filter (\<lambda>s. src_name s \<noteq> name) old"
    using load_after_save[OF sv] by (simp add: getSources_def cfg'_def)
  have f: "file_at st' (getConfigPath st') =
             Some (Doc \<lparr>doc_sources = Some (cfg_sources cfg'), doc_cache = Some (cfg_cache cfg')\<rparr>)"
    using sv assms(2) by (cases "cwd_config st")
      (auto simp: saveConfig_def Let_def getConfigPath_def file_at_def write_at_def)
  show ?thesis using res new' f by (auto simp: getSources_def old_def cfg'_def)
qed


text \<open>
  The scenario of the specification: on the default configuration, add
  \<open>(x, local, /a)\<close> and then \<open>(x, local, /b)\<close>. The second call meets the hypotheses
  of the theorem; one source \<open>x\<close> remains, with location \<open>/b\<close>, at position 1.
\<close>

theorem addSource_replaces_or_appends_witness:
  "let st0 = \<lparr>cwd_config = None, home_config = None, write_error = None\<rparr>;
       opts = \<lparr>opt_branch = None, opt_path = None, opt_default = None\<rparr>;
       st1 = snd (addSource ''x'' ''local'' ''/a'' opts st0);
       st2 = snd (addSource ''x'' ''local'' ''/b'' opts st1)
   in distinct (map src_name (getSources st1)) \<and> write_error st1 = None \<and>
      map src_name (getSources st1) = [''local'', ''x''] \<and>
      map src_url (getSources st1) = [None, Some ''/a''] \<and>
      map src_name (getSources st2) = [''local'', ''x''] \<and>
      map src_url (getSources st2) = [None, Some ''/b''] \<and>
      length (filter (\<lambda>s. src_name s = ''x'') (getSources st2)) = 1"
proof -
  define st0 where "st0 = \<lparr>cwd_config = None, home_config = None, write_error = None\<rparr>"
  define opts where "opts = \<lparr>opt_branch = None, opt_path = None, opt_default = None\<rparr>"
  define st1 where "st1 = snd (addSource ''x'' ''local'' ''/a'' opts st0)"
  have s1: "st1 = \<lparr>cwd_config = None,
               home_config = Some (Doc \<lparr>doc_sources = Some (cfg_sources defaultConfig @
                   [\<lparr>src_name = ''x'', src_type = ''local'', src_url = Some ''/a'',
                     src_path = None, src_branch = None, src_default = None\<rparr>]),
                   doc_cache = Some (cfg_cache defaultConfig)\<rparr>),
               write_error = None\<rparr>"
    by (simp add: st1_def st0_def opts_def addSource_def loadConfig_def getConfigPath_def
        file_at_def saveConfig_def write_at_def defaultConfig_def Let_def)
  have g1: "getSources st1 = cfg_sources defaultConfig @
                   [\<lparr>src_name = ''x'', src_type = ''local'', src_url = Some ''/a'',
                     src_path = None, src_branch = None, src_default = None\<rparr>]"
    by (simp add: s1 getSources_def loadConfig_def getConfigPath_def file_at_def merge_defaults_def)
  have h1: "distinct (map src_name (getSources st1))" by (simp add: g1 defaultConfig_def)
  have h2: "write_error st1 = None" by (simp add: s1)
  from addSource_replaces_or_appends[OF h1 h2, of "''x''" "''local''" "''/b''" opts]
  obtain src st2 where r: "addSource ''x'' ''local'' ''/b'' opts st1 = (Inr src, st2)"
    and sv: "src = \<lparr>src_name = ''x'', src_type = ''local'', src_url = Some ''/b'',
                  src_path = opt_path opts, src_branch = opt_branch opts,
                  src_default = opt_default opts\<rparr>"
    and upd: "\<exists>i < length (getSources st1).
                   src_name (getSources st1 ! i) = ''x'' \<and>
                   getSources st2 = (getSources st1)[i := src]"
    and cnt: "length (filter (\<lambda>s. src_name s = ''x'') (getSources st2)) = 1"
    by (auto simp: g1 split: if_splits)
  from upd obtain i where i: "i < length (getSources st1)"
      "src_name (getSources st1 ! i) = ''x''"
      "getSources st2 = (getSources st1)[i := src]"
    by blast
  have "i < 2" using i(1) by (simp add: g1 defaultConfig_def)
  then have "i = 0 \<or> i = 1" by auto
  moreover have "i \<noteq> 0"
  proof
    assume "i = 0"
    with i(2) show False by (simp add: g1 defaultConfig_def)
  qed
  ultimately have "i = 1" by simp
  with i(3) have g2: "getSources st2 = [hd (cfg_sources defaultConfig), src]"
    by (simp add: g1 defaultConfig_def)
  have "snd (addSource ''x'' ''local'' ''/b'' opts st1) = st2" using r by simp
  then show ?thesis
    unfolding Let_def st0_def[symmetric] opts_def[symmetric] st1_def[symmetric]
    using h1 h2 g1 g2 cnt sv by (simp add: defaultConfig_def)
qed

text \<open>Removing \<open>ghost\<close> from the default configuration.\<close>

theorem removeSource_unknown_name_witness:
  "let st0 = \<lparr>cwd_config = None, home_config = None, write_error = None\<rparr>
   in ''ghost'' \<notin> src_name ` set (getSources st0) \<and>
      removeSource ''ghost'' st0 =
        (Inl (''Source '' @ [CHR 0x27] @ ''ghost'' @ [CHR 0x27] @ '' not found''), st0)"
proof -
  define st0 where "st0 = \<lparr>cwd_config = None, home_config = None, write_error = None\<rparr>"
  have h: "''ghost'' \<notin> src_name ` set (getSources st0)"
    by (simp add: st0_def getSources_def loadConfig_def getConfigPath_def file_at_def
        defaultConfig_def)
  show ?thesis
    unfolding Let_def st0_def[symmetric]
    using h removeSource_unknown_name[OF h] by (simp add: not_found_message_def)
qed

text \<open>A document that holds the name \<open>x\<close> twice: both entries go in one call.\<close>

theorem removeSource_removes_all_witness:
  "let mk = (\<lambda>n u. \<lparr>src_name = n, src_type = ''local'', src_url = Some u,
                     src_path = None, src_branch = None, src_default = None\<rparr>);
       st0 = \<lparr>cwd_config = None,
              home_config = Some (Doc \<lparr>doc_sources =
                 Some [mk ''a'' ''/a'', mk ''x'' ''/1'', mk ''b'' ''/b'', mk ''x'' ''/2''],
                 doc_cache = None\<rparr>),
              write_error = None\<rparr>
   in ''x'' \<in> src_name ` set (getSources st0) \<and> write_error st0 = None \<and>
      fst (removeSource ''x'' st0) = Inr True \<and>
      getSources (snd (removeSource ''x'' st0)) = [mk ''a'' ''/a'', mk ''b'' ''/b'']"
proof -
  define mk where "mk = (\<lambda>n u. \<lparr>src_name = n, src_type = ''local'', src_url = Some u,
                     src_path = None, src_branch = None, src_default = None\<rparr>)"
  define st0 where "st0 = \<lparr>cwd_config = None,
              home_config = Some (Doc \<lparr>doc_sources =
                 Some [mk ''a'' ''/a'', mk ''x'' ''/1'', mk ''b'' ''/b'', mk ''x'' ''/2''],
                 doc_cache = None\<rparr>),
              write_error = None\<rparr>"
  have g: "getSources st0 = [mk ''a'' ''/a'', mk ''x'' ''/1'', mk ''b'' ''/b'', mk ''x'' ''/2'']"
    by (simp add: st0_def getSources_def loadConfig_def getConfigPath_def file_at_def
        merge_defaults_def)
  have h1: "''x'' \<in> src_name ` set (getSources st0)" by (simp add: g mk_def)
  have h2: "write_error st0 = None" by (simp add: st0_def)
  from removeSource_removes_all[OF h1 h2]
  obtain st' where "removeSource ''x'' st0 = (Inr True, st')"
    and "getSources st' = filter (\<lambda>s. src_name s \<noteq> ''x'') (getSources st0)"
    by blast
  then show ?thesis
    unfolding Let_def mk_def[symmetric] st0_def[symmetric]
    using h1 h2 by (simp add: g) (simp add: mk_def)
qed

section \<open>Properties of the file system and of paths\<close>

lemma ensureDir_target:
  "ensureDir t p n = Inr n1 \<Longrightarrow>
     (n1 = n \<and> (\<exists>m es. lookup n p = Some (Dir m es))) \<or> lookup n1 p = Some (Dir t [])"
proof (induction t p n arbitrary: n1 rule: ensureDir.induct)
  case (1 t m es)
  then show ?case by auto
next
  case (2 t c m)
  then show ?case by simp
next
  case (3 t x xs c m)
  then show ?case by simp
next
  case (4 t x xs m es)
  define ch where "ch = (case map_of es x of None \<Rightarrow> Dir t [] | Some ch \<Rightarrow> ch)"
  from "4.prems" obtain ch' where sub: "ensureDir t xs ch = Inr ch'"
    and n1: "n1 = Dir m (AList.update x ch' es)"
    by (auto simp: ch_def split: sum.splits)
  have look: "lookup n1 (x # xs) = lookup ch' xs"
    by (simp add: n1 update_conv')
  from "4.IH"[OF sub[unfolded ch_def]]
  have ih: "(ch' = ch \<and> (\<exists>m es. lookup ch xs = Some (Dir m es))) \<or> lookup ch' xs = Some (Dir t [])"
    by (simp add: ch_def)
  show ?case
  proof (cases "map_of es x")
    case None
    then have chd: "ch = Dir t []" by (simp add: ch_def)
    from ih show ?thesis
    proof
      assume a: "ch' = ch \<and> (\<exists>m es. lookup ch xs = Some (Dir m es))"
      then have "xs = []" using chd by (cases xs) auto
      with a chd look show ?thesis by simp
    next
      assume "lookup ch' xs = Some (Dir t [])"
      with look show ?thesis by simp
    qed
  next
    case (Some c0)
    then have chd: "ch = c0" by (simp add: ch_def)
    from ih show ?thesis
    proof
      assume a: "ch' = ch \<and> (\<exists>m es. lookup ch xs = Some (Dir m es))"
      then have "n1 = Dir m es" using n1 chd Some by (simp add: update_triv)
      moreover have "lookup (Dir m es) (x # xs) = lookup ch xs" using Some chd by simp
      ultimately show ?thesis using a by simp
    next
      assume "lookup ch' xs = Some (Dir t [])"
      with look show ?thesis by simp
    qed
  qed
qed

lemma writeFile_into_dir:
  "lookup n p = Some (Dir m es) \<Longrightarrow> map_of es f = None \<Longrightarrow>
   \<exists>n'. writeFile t (p @ [f]) c n = Inr n'"
proof (induction p arbitrary: n)
  case Nil
  then show ?case by simp
next
  case (Cons x xs)
  from Cons.prems(1) obtain m0 es0 ch where n: "n = Dir m0 es0" and ch: "map_of es0 x = Some ch"
    and l: "lookup ch xs = Some (Dir m es)"
    by (cases n) (auto split: option.splits)
  from Cons.IH[OF l Cons.prems(2)] obtain ch' where "writeFile t (xs @ [f]) c ch = Inr ch'" by blast
  then show ?case using n ch by simp
qed

lemma writeFile_into_dir_fails:
  "lookup n p = Some (Dir m es) \<Longrightarrow> writeFile t (p @ [f]) c n = Inl e \<Longrightarrow>
   \<exists>m' es'. map_of es f = Some (Dir m' es')"
proof (induction p arbitrary: n)
  case Nil
  show ?case
  proof (cases "map_of es f")
    case None
    with Nil show ?thesis by simp
  next
    case (Some a)
    with Nil show ?thesis by (cases a) auto
  qed
next
  case (Cons x xs)
  from Cons.prems(1) obtain m0 es0 ch where n: "n = Dir m0 es0" and ch: "map_of es0 x = Some ch"
    and l: "lookup ch xs = Some (Dir m es)"
    by (cases n) (auto split: option.splits)
  from Cons.prems(2) have "writeFile t (xs @ [f]) c ch = Inl e"
    using n ch by (auto split: sum.splits)
  from Cons.IH[OF l this] show ?case .
qed

lemma lookup_after_writeFile:
  "writeFile t p c n = Inr n' \<Longrightarrow> lookup n' p = Some (File c t)"
proof (induction t p c n arbitrary: n' rule: writeFile.induct)
  case (4 t x xs c m es)
  show ?case
  proof (cases "map_of es x")
    case None
    with "4.prems" show ?thesis by (auto simp: update_conv' split: if_splits)
  next
    case (Some ch)
    with "4.prems" obtain ch' where w: "writeFile t xs c ch = Inr ch'"
      and n': "n' = Dir m (AList.update x ch' es)"
      by (auto split: sum.splits)
    from "4.IH"[OF Some w] show ?thesis by (simp add: n' update_conv')
  qed
qed auto

lemma parent_after_writeFile:
  "writeFile t (p @ [f]) c n = Inr n' \<Longrightarrow>
   \<exists>m es. lookup n' p = Some (Dir m es) \<and> f \<in> fst ` set es"
proof (induction p arbitrary: n n')
  case Nil
  then show ?case
    by (cases n; cases "map_of (case n of Dir m es \<Rightarrow> es | _ \<Rightarrow> []) f")
       (auto simp: dom_update split: sum.splits)
next
  case (Cons x xs)
  from Cons.prems obtain m0 es0 ch ch' where n: "n = Dir m0 es0" and ch: "map_of es0 x = Some ch"
    and w: "writeFile t (xs @ [f]) c ch = Inr ch'" and n': "n' = Dir m0 (AList.update x ch' es0)"
    by (cases n; cases "map_of (case n of Dir m es \<Rightarrow> es | _ \<Rightarrow> []) x")
       (auto split: sum.splits if_splits)
  from Cons.IH[OF w] show ?case by (simp add: n' update_conv')
qed

lemma ensureDir_then_writeFile_fails:
  assumes "ensureDir t p n = Inr n1" "writeFile t (p @ [f]) c n1 = Inl e"
  shows "n1 = n"
proof (rule ccontr)
  assume "n1 \<noteq> n"
  with ensureDir_target[OF assms(1)] have "lookup n1 p = Some (Dir t [])" by blast
  from writeFile_into_dir[OF this, of f t c] assms(2) show False by simp
qed

lemma split_on_nonempty: "split_on sep xs \<noteq> []"
  by (induction xs) (auto split: list.splits)

lemma split_on_no_sep: "sep \<notin> set f \<Longrightarrow> split_on sep f = [f]"
  by (induction f) auto

lemma split_on_append:
  "sep \<notin> set ys \<Longrightarrow>
   split_on sep (xs @ ys) = butlast (split_on sep xs) @ [last (split_on sep xs) @ ys]"
proof (induction xs)
  case Nil
  then show ?case by (simp add: split_on_no_sep)
next
  case (Cons x xs)
  show ?case
  proof (cases "x = sep")
    case True
    with Cons show ?thesis by (simp add: split_on_nonempty)
  next
    case False
    obtain w ws where s: "split_on sep xs = w # ws"
      using split_on_nonempty[of sep xs] by (cases "split_on sep xs") auto
    show ?thesis
    proof (cases ws)
      case Nil
      with Cons False s show ?thesis by simp
    next
      case (Cons a list)
      with Cons.IH[OF Cons.prems] False s show ?thesis by simp
    qed
  qed
qed

lemma concat_singletons:
  "\<forall>c \<in> set cs. f c = [c] \<Longrightarrow> concat (map f cs) = cs"
  by (induction cs) auto

lemma split_on_parts: "c \<in> set (split_on sep xs) \<Longrightarrow> sep \<notin> set c"
  by (induction xs arbitrary: c) (auto split: list.splits if_splits)

lemma path_step_clean:
  "3 \<le> length l \<Longrightarrow> path_step p l = p @ [l]"
  by (auto simp: path_step_def)

lemma extension_facts:
  "CHR ''/'' \<notin> set (getFileExtension type)" "3 \<le> length (getFileExtension type)"
  by (simp_all add: getFileExtension_def)

lemma getCachePath_split:
  "getCachePath w source type name =
     path_join (getCacheDir w)
       ([src_name source, pluralizeType type] @ butlast (split_on CHR ''/'' name))
     @ [last (split_on CHR ''/'' name) @ getFileExtension type]"
proof -
  let ?l = "last (split_on CHR ''/'' name) @ getFileExtension type"
  have "3 \<le> length ?l" using extension_facts(2)[of type] by simp
  then have st: "\<And>p. path_step p ?l = p @ [?l]" by (rule path_step_clean)
  have sp: "split_on CHR ''/'' (name @ getFileExtension type) =
              butlast (split_on CHR ''/'' name) @ [?l]"
    by (rule split_on_append) (rule extension_facts)
  have b: "concat (map (split_on CHR ''/'') (butlast (split_on CHR ''/'' name))) =
           butlast (split_on CHR ''/'' name)"
  proof -
    have "\<forall>c \<in> set (split_on CHR ''/'' name). CHR ''/'' \<notin> set c"
      by (blast dest: split_on_parts)
    then have "\<forall>c \<in> set (butlast (split_on CHR ''/'' name)). split_on CHR ''/'' c = [c]"
      by (auto dest: in_set_butlastD simp: split_on_no_sep)
    then show ?thesis by (rule concat_singletons)
  qed
  show ?thesis
    by (simp add: getCachePath_def path_join_def sp st b)
qed

lemma getCachePath_plain:
  assumes "CHR ''/'' \<notin> set name"
  shows "getCachePath w source type name =
     path_join (getCacheDir w) [src_name source, pluralizeType type]
     @ [name @ getFileExtension type]"
  using getCachePath_split[of w source type name] assms
  by (simp add: split_on_no_sep)

section \<open>Properties of the cache manager\<close>

lemma getCachePath_now [simp]: "getCachePath (w\<lparr>now := t\<rparr>) = getCachePath w"
  by (rule ext)+ (simp add: getCachePath_def getCacheDir_def)

lemma getCachePath_fs [simp]: "getCachePath (w\<lparr>fs := f\<rparr>) = getCachePath w"
  by (rule ext)+ (simp add: getCachePath_def getCacheDir_def)

lemma setCachedFile_success:
  assumes "setCachedFile source type name content w = (Inr u, w')"
  shows "lookup (fs w') (getCachePath w source type name) = Some (File content (now w))
         \<and> now w' = now w \<and> homedir w' = homedir w \<and> http w' = http w"
  using assms
  by (auto simp: setCachedFile_def Let_def lookup_after_writeFile split: sum.splits)

lemma setCachedFile_failure:
  assumes "setCachedFile source type name content w = (Inl e, w')"
  shows "w' = w"
proof -
  obtain q l where cp: "getCachePath w source type name = q @ [l]"
    using getCachePath_split by blast
  show ?thesis
  proof (cases "ensureDir (now w) q (fs w)")
    case (Inl a)
    with assms cp show ?thesis by (simp add: setCachedFile_def path_dirname_def)
  next
    case (Inr fs1)
    with assms cp have "\<exists>e'. writeFile (now w) (q @ [l]) content fs1 = Inl e'" and w': "w' = w\<lparr>fs := fs1\<rparr>"
      by (auto simp: setCachedFile_def path_dirname_def split: sum.splits)
    then obtain e' where "writeFile (now w) (q @ [l]) content fs1 = Inl e'" by blast
    from ensureDir_then_writeFile_fails[OF Inr this] have "fs1 = fs w" .
    with w' show ?thesis by simp
  qed
qed

lemma getCachedFile_file:
  assumes "lookup (fs w) (getCachePath w source type name) = Some (File c m)"
  shows "getCachedFile w source type name ttl =
           Inr (if now w - m < (case ttl of None \<Rightarrow> 3600000 | Some t \<Rightarrow> t) then Some c else None)"
  using assms
  by (simp add: getCachedFile_def pathExists_def isCacheValid_def stat_mtime_def readFile_def Let_def)

lemma getCachedFile_absent:
  assumes "\<not> pathExists (fs w) (getCachePath w source type name)"
  shows "getCachedFile w source type name ttl = Inr None"
  using assms by (simp add: getCachedFile_def)

text \<open>
  Claim C4. After a \<^verbatim>\<open>setCachedFile\<close> that succeeded at time \<open>now w\<close>, a \<^verbatim>\<open>getCachedFile\<close>
  for the same source, kind and name at any later clock reading returns exactly the content
  while the age (the reading minus the time of the write) is strictly below the ttl (the
  default 3600000 when none is passed), and the miss \<^verbatim>\<open>null\<close> from the moment the age
  reaches the ttl. When nothing exists at the cache path, the result is the miss as well.
  Neither case is an error.
\<close>

theorem cache_round_trip:
  "(setCachedFile source type name content w = (Inr (), w') \<longrightarrow>
      (\<forall>later ttl.
         getCachedFile (w'\<lparr>now := later\<rparr>) source type name ttl =
           Inr (if later - now w < (case ttl of None \<Rightarrow> 3600000 | Some t \<Rightarrow> t)
                then Some content else None)))
   \<and> (\<not> pathExists (fs v) (getCachePath v source type name) \<longrightarrow>
        (\<forall>ttl. getCachedFile v source type name ttl = Inr None))"
proof (intro conjI impI allI)
  fix later ttl
  assume "setCachedFile source type name content w = (Inr (), w')"
  from setCachedFile_success[OF this]
  have l: "lookup (fs w') (getCachePath w source type name) = Some (File content (now w))"
    and h: "homedir w' = homedir w"
    by simp_all
  have p: "getCachePath w' = getCachePath w"
    by (rule ext)+ (simp add: getCachePath_def getCacheDir_def h)
  have "lookup (fs (w'\<lparr>now := later\<rparr>)) (getCachePath (w'\<lparr>now := later\<rparr>) source type name)
          = Some (File content (now w))"
    using l p by simp
  from getCachedFile_file[OF this, of ttl]
  show "getCachedFile (w'\<lparr>now := later\<rparr>) source type name ttl =
           Inr (if later - now w < (case ttl of None \<Rightarrow> 3600000 | Some t \<Rightarrow> t)
                then Some content else None)"
    by simp
next
  fix ttl
  assume "\<not> pathExists (fs v) (getCachePath v source type name)"
  then show "getCachedFile v source type name ttl = Inr None"
    by (rule getCachedFile_absent)
qed

lemma last_dot_append_ext:
  "CHR ''.'' \<notin> set e \<Longrightarrow> last_dot (n @ CHR ''.'' # e) = Some (length n)"
proof (induction n)
  case Nil
  have "last_dot e = None" using Nil by (induction e) (auto split: option.splits)
  then show ?case by simp
next
  case (Cons a n)
  then show ?case by simp
qed

lemma path_parse_name_template:
  assumes "n \<noteq> []"
  shows "path_parse_name (n @ getFileExtension type) = n"
proof -
  obtain e where e: "getFileExtension type = CHR ''.'' # e" "CHR ''.'' \<notin> set e" "e \<noteq> []"
    by (cases "type = ''component''") (simp_all add: getFileExtension_def)
  have "last_dot (n @ getFileExtension type) = Some (length n)"
    using e by (simp add: last_dot_append_ext)
  moreover have "n @ getFileExtension type \<noteq> ''..''"
    using e assms by (cases n) (auto simp: getFileExtension_def split: if_splits)
  ultimately show ?thesis using assms by (simp add: path_parse_name_def)
qed

lemma is_template_file_ext: "is_template_file (n @ getFileExtension type)"
  by (simp add: is_template_file_def str_endsWith_def getFileExtension_def suffix_def)

text \<open>
  Claim C9, amended. After a successful \<^verbatim>\<open>setCachedFile\<close> for a name that is not empty and
  has no \<^verbatim>\<open>/\<close>, \<^verbatim>\<open>listCachedTemplates\<close> for that source and kind succeeds and lists the
  name. In general the listing is \<^verbatim>\<open>path.parse(entry).name\<close> of the entries of the
  source/kind cache directory that end in \<^verbatim>\<open>.ts\<close> or \<^verbatim>\<open>.tsx\<close>, in directory order, and
  the empty list when that directory does not exist.
\<close>

theorem listCachedTemplates_after_set:
  "(setCachedFile source type name content w = (Inr (), w') \<and> name \<noteq> [] \<and> CHR ''/'' \<notin> set name
      \<longrightarrow> (\<exists>names. listCachedTemplates w' source type = Inr names \<and> name \<in> set names))
   \<and> (\<forall>files. readdir (fs v) (path_join (getCacheDir v) [src_name source, pluralizeType type])
                 = Inr files
         \<longrightarrow> listCachedTemplates v source type
               = Inr (map path_parse_name
                       (filter (\<lambda>file. str_endsWith file ''.ts'' \<or> str_endsWith file ''.tsx'') files)))
   \<and> (\<not> pathExists (fs v) (path_join (getCacheDir v) [src_name source, pluralizeType type])
         \<longrightarrow> listCachedTemplates v source type = Inr [])"
proof (intro conjI impI allI)
  assume a: "setCachedFile source type name content w = (Inr (), w') \<and> name \<noteq> [] \<and> CHR ''/'' \<notin> set name"
  let ?dir = "path_join (getCacheDir w) [src_name source, pluralizeType type]"
  let ?f = "name @ getFileExtension type"
  have cp: "getCachePath w source type name = ?dir @ [?f]"
    using a by (simp add: getCachePath_plain)
  from a obtain fs1 where wr: "writeFile (now w) (?dir @ [?f]) content fs1 = Inr (fs w')"
    by (auto simp: setCachedFile_def Let_def cp split: sum.splits)
  from parent_after_writeFile[OF wr] obtain m es
    where d: "lookup (fs w') ?dir = Some (Dir m es)" and f: "?f \<in> fst ` set es"
    by blast
  have h: "getCacheDir w' = getCacheDir w"
    using setCachedFile_success[of source type name content w "()" w'] a
    by (simp add: getCacheDir_def)
  have "listCachedTemplates w' source type =
          Inr (map path_parse_name (filter is_template_file (map fst es)))"
    using d by (simp add: listCachedTemplates_def h pathExists_def readdir_def)
  moreover have "?f \<in> set (filter is_template_file (map fst es))"
    using f by (simp add: is_template_file_ext)
  then have "path_parse_name ?f \<in> set (map path_parse_name (filter is_template_file (map fst es)))"
    by (metis imageI set_map)
  then have "name \<in> set (map path_parse_name (filter is_template_file (map fst es)))"
    using a by (simp add: path_parse_name_template)
  ultimately show "\<exists>names. listCachedTemplates w' source type = Inr names \<and> name \<in> set names"
    by blast
next
  fix files
  assume r: "readdir (fs v) (path_join (getCacheDir v) [src_name source, pluralizeType type]) = Inr files"
  then have "pathExists (fs v) (path_join (getCacheDir v) [src_name source, pluralizeType type])"
    by (auto simp: readdir_def pathExists_def split: option.splits)
  with r show "listCachedTemplates v source type
               = Inr (map path_parse_name
                       (filter (\<lambda>file. str_endsWith file ''.ts'' \<or> str_endsWith file ''.tsx'') files))"
    by (simp add: listCachedTemplates_def is_template_file_def[abs_def])
next
  assume "\<not> pathExists (fs v) (path_join (getCacheDir v) [src_name source, pluralizeType type])"
  then show "listCachedTemplates v source type = Inr []"
    by (simp add: listCachedTemplates_def)
qed

section \<open>Properties of the fetchers and of the resolution engine\<close>

lemma GitHubFetcher_download_failure:
  "GitHubFetcher_download source type name url w = (Inl e, w') \<Longrightarrow> w' = w"
  by (auto simp: GitHubFetcher_download_def Let_def
           split: http_result.splits if_splits prod.splits sum.splits
           dest: setCachedFile_failure)

lemma GitHubFetcher_fetchFile_failure:
  "GitHubFetcher_fetchFile source type name useCache w = (Inl e, w') \<Longrightarrow> w' = w"
  by (auto simp: GitHubFetcher_fetchFile_def split: sum.splits if_splits
           dest: GitHubFetcher_download_failure)

lemma fetcher_fetchFile_failure:
  "fetcher_fetchFile f type name useCache w = (Inl e, w') \<Longrightarrow> w' = w"
  by (cases f) (auto dest: GitHubFetcher_fetchFile_failure)

lemma fetcher_fetchFile_isl:
  "isl (fst (fetcher_fetchFile f type name useCache w)) \<Longrightarrow>
   fetcher_fetchFile f type name useCache w =
     (Inl (projl (fst (fetcher_fetchFile f type name useCache w))), w)"
proof -
  assume a: "isl (fst (fetcher_fetchFile f type name useCache w))"
  obtain r w' where r: "fetcher_fetchFile f type name useCache w = (r, w')"
    by (cases "fetcher_fetchFile f type name useCache w")
  with a obtain e where "r = Inl e" by (cases r) auto
  with r fetcher_fetchFile_failure[of f type name useCache w e w'] show ?thesis by simp
qed

lemma fetchTemplate_loop_skips_failures:
  assumes "\<forall>x\<in>set pre. isl (fst (fetcher_fetchFile (createFetcher x root) type name True w))"
  shows "fetchTemplate_loop (pre @ rest) type name root errors w =
         fetchTemplate_loop rest type name root
           (errors @ map (\<lambda>x. src_name x @ '': '' @
               projl (fst (fetcher_fetchFile (createFetcher x root) type name True w))) pre) w"
  using assms
proof (induction pre arbitrary: errors)
  case Nil
  then show ?case by simp
next
  case (Cons a pre)
  from Cons.prems have "isl (fst (fetcher_fetchFile (createFetcher a root) type name True w))"
    by simp
  from fetcher_fetchFile_isl[OF this]
  obtain e where e: "fetcher_fetchFile (createFetcher a root) type name True w = (Inl e, w)"
    and pe: "projl (fst (fetcher_fetchFile (createFetcher a root) type name True w)) = e"
    by (metis fst_conv sum.sel(1))
  have "fetchTemplate_loop ((a # pre) @ rest) type name root errors w =
        fetchTemplate_loop (pre @ rest) type name root
          (errors @ [src_name a @ '': '' @
               projl (fst (fetcher_fetchFile (createFetcher a root) type name True w))]) w"
    unfolding pe using e by simp
  also have "\<dots> = fetchTemplate_loop rest type name root
           ((errors @ [src_name a @ '': '' @
               projl (fst (fetcher_fetchFile (createFetcher a root) type name True w))]) @
            map (\<lambda>x. src_name x @ '': '' @
               projl (fst (fetcher_fetchFile (createFetcher x root) type name True w))) pre) w"
    using Cons.prems by (intro Cons.IH) simp
  finally show ?case by simp
qed

text \<open>
  Claim C1. When the fetch of some source of the list succeeds, \<^verbatim>\<open>fetchTemplate\<close> succeeds:
  the list splits into sources whose fetch fails, the first source whose fetch succeeds, and
  the rest; the result is the content that first source produced, paired with that source,
  and the world is the one its fetch left, so no later source was consulted.
\<close>

theorem fetchTemplate_first_success:
  assumes "\<exists>s\<in>set sources.
             \<not> isl (fst (fetcher_fetchFile (createFetcher s root) type name True w))"
  shows "\<exists>pre s post content w'.
           sources = pre @ s # post \<and>
           (\<forall>x\<in>set pre. isl (fst (fetcher_fetchFile (createFetcher x root) type name True w))) \<and>
           fetcher_fetchFile (createFetcher s root) type name True w = (Inr content, w') \<and>
           fetchTemplate sources type name root w = (Inr (content, s), w')"
proof -
  from split_list_first_prop[OF assms] obtain pre s post
    where sp: "sources = pre @ s # post"
      and ok: "\<not> isl (fst (fetcher_fetchFile (createFetcher s root) type name True w))"
      and pre: "\<forall>x\<in>set pre. \<not> \<not> isl (fst (fetcher_fetchFile (createFetcher x root) type name True w))"
    by blast
  from pre have pre': "\<forall>x\<in>set pre. isl (fst (fetcher_fetchFile (createFetcher x root) type name True w))"
    by simp
  obtain r w' where r: "fetcher_fetchFile (createFetcher s root) type name True w = (r, w')"
    by (cases "fetcher_fetchFile (createFetcher s root) type name True w")
  with ok obtain content where c: "r = Inr content" by (cases r) auto
  have "fetchTemplate sources type name root w = (Inr (content, s), w')"
    unfolding fetchTemplate_def sp fetchTemplate_loop_skips_failures[OF pre']
    using r c by simp
  with sp pre' r c show ?thesis by blast
qed

text \<open>
  Claim C2. When the fetch fails for every source of the list, \<^verbatim>\<open>fetchTemplate\<close> fails with
  one message: the header line, then one entry per source in list order, joined by
  newlines, each entry the source's name, a colon and a space, and that source's own
  failure message. The world is unchanged.
\<close>

theorem fetchTemplate_all_fail:
  assumes "\<forall>s\<in>set sources. isl (fst (fetcher_fetchFile (createFetcher s root) type name True w))"
  shows "fetchTemplate sources type name root w =
           (Inl (''Template not found in any source:'' @ newline @
                 array_join newline
                   (map (\<lambda>s. src_name s @ '': '' @
                           projl (fst (fetcher_fetchFile (createFetcher s root) type name True w)))
                        sources)),
            w)"
  using fetchTemplate_loop_skips_failures[OF assms, of "[]" "[]"]
  by (simp add: fetchTemplate_def)

lemma fs_message_not_npm: "fs_message e \<noteq> ''NPM source fetching not yet implemented''"
  by (cases e) simp_all

text \<open>
  Claim C3, amended. For an npm source \<^verbatim>\<open>fetchFile\<close> never downloads; the cache alone
  decides its result. It fails with \<^verbatim>\<open>NPM source fetching not yet implemented\<close> when the
  cache is not consulted, when nothing exists at the cache path, when what exists there has
  an age of 3600000 or more, and when it is an empty file. It returns the content of a
  non-empty file of age below 3600000. It fails with the error of the read (\<^verbatim>\<open>EISDIR\<close>)
  when a directory of age below 3600000 stands at the cache path. \<^verbatim>\<open>listTemplates\<close> never
  fails with the not-implemented message: it returns the empty list when the cache is not
  consulted or the source/kind cache directory is absent, the names of its \<^verbatim>\<open>.ts\<close> and
  \<^verbatim>\<open>.tsx\<close> entries when the directory exists, and the error of \<^verbatim>\<open>readdir\<close>
  (\<^verbatim>\<open>ENOTDIR\<close>) when a file stands in its place.
\<close>

theorem NpmFetcher_decided_by_cache:
  "NpmFetcher_fetchFile source type name useCache w =
     (if \<not> useCache then Inl ''NPM source fetching not yet implemented''
      else (case lookup (fs w) (getCachePath w source type name) of
              None \<Rightarrow> Inl ''NPM source fetching not yet implemented''
            | Some (File content mtime) \<Rightarrow>
                if now w - mtime < 3600000 \<and> content \<noteq> [] then Inr content
                else Inl ''NPM source fetching not yet implemented''
            | Some (Dir mtime entries) \<Rightarrow>
                if now w - mtime < 3600000 then Inl (fs_message EISDIR)
                else Inl ''NPM source fetching not yet implemented''))
   \<and> NpmFetcher_listTemplates source type useCache w =
     (if \<not> useCache then Inr []
      else (case lookup (fs w) (path_join (getCacheDir w) [src_name source, pluralizeType type]) of
              None \<Rightarrow> Inr []
            | Some (File content mtime) \<Rightarrow> Inl (fs_message ENOTDIR)
            | Some (Dir mtime entries) \<Rightarrow>
                Inr (map path_parse_name
                      (filter (\<lambda>file. str_endsWith file ''.ts'' \<or> str_endsWith file ''.tsx'')
                         (map fst entries)))))
   \<and> NpmFetcher_listTemplates source type useCache w
       \<noteq> Inl ''NPM source fetching not yet implemented''"
proof (intro conjI)
  show "NpmFetcher_fetchFile source type name useCache w =
     (if \<not> useCache then Inl ''NPM source fetching not yet implemented''
      else (case lookup (fs w) (getCachePath w source type name) of
              None \<Rightarrow> Inl ''NPM source fetching not yet implemented''
            | Some (File content mtime) \<Rightarrow>
                if now w - mtime < 3600000 \<and> content \<noteq> [] then Inr content
                else Inl ''NPM source fetching not yet implemented''
            | Some (Dir mtime entries) \<Rightarrow>
                if now w - mtime < 3600000 then Inl (fs_message EISDIR)
                else Inl ''NPM source fetching not yet implemented''))"
  proof (cases "lookup (fs w) (getCachePath w source type name)")
    case None
    then show ?thesis
      by (simp add: NpmFetcher_fetchFile_def getCachedFile_def pathExists_def)
  next
    case (Some n)
    then show ?thesis
      by (cases n)
         (simp_all add: NpmFetcher_fetchFile_def getCachedFile_def pathExists_def
            isCacheValid_def stat_mtime_def readFile_def Let_def)
  qed
next
  show l: "NpmFetcher_listTemplates source type useCache w =
     (if \<not> useCache then Inr []
      else (case lookup (fs w) (path_join (getCacheDir w) [src_name source, pluralizeType type]) of
              None \<Rightarrow> Inr []
            | Some (File content mtime) \<Rightarrow> Inl (fs_message ENOTDIR)
            | Some (Dir mtime entries) \<Rightarrow>
                Inr (map path_parse_name
                      (filter (\<lambda>file. str_endsWith file ''.ts'' \<or> str_endsWith file ''.tsx'')
                         (map fst entries)))))"
  proof (cases "lookup (fs w) (path_join (getCacheDir w) [src_name source, pluralizeType type])")
    case None
    then show ?thesis
      by (simp add: NpmFetcher_listTemplates_def listCachedTemplates_def pathExists_def)
  next
    case (Some n)
    then show ?thesis
      by (cases n)
         (simp_all add: NpmFetcher_listTemplates_def listCachedTemplates_def pathExists_def
            readdir_def is_template_file_def[abs_def] Let_def)
  qed
  show "NpmFetcher_listTemplates source type useCache w
       \<noteq> Inl ''NPM source fetching not yet implemented''"
    unfolding l using fs_message_not_npm[of ENOTDIR]
    by (auto split: option.splits node.splits)
qed

text \<open>
  Claim C5, amended. The ttl of a remote fetch is the constant 3600000: with a non-empty
  file at the cache path, \<^verbatim>\<open>fetchFile\<close> returns it, without a request, when its age is
  below 3600000, and otherwise goes on as a fetch without the cache does. The \<^verbatim>\<open>add\<close> command gives the
  same result under any two configurations with the same sources, whatever their
  \<^verbatim>\<open>cache\<close> sections say; \<^verbatim>\<open>fetchFile\<close> has no ttl parameter.
\<close>

theorem GitHubFetcher_fixed_ttl:
  "(lookup (fs w) (getCachePath w source type name) = Some (File content mtime) \<and> content \<noteq> []
      \<longrightarrow> GitHubFetcher_fetchFile source type name True w =
            (if now w - mtime < 3600000 then (Inr content, w)
             else GitHubFetcher_fetchFile source type name False w))
   \<and> (cfg_sources (loadConfig st) = cfg_sources (loadConfig st')
        \<longrightarrow> add_resolve st type name root w = add_resolve st' type name root w)"
  by (auto simp: GitHubFetcher_fetchFile_def getCachedFile_file add_resolve_def Let_def)

section \<open>Properties of the raw-content URL\<close>

lemma str_replace_prefix: "pat \<noteq> [] \<Longrightarrow> str_replace (pat @ s) pat rep = rep @ s"
  by (cases pat) simp_all

lemma dot_git_no_straddle:
  assumes "prefix ''.git'' (r @ ''.git'')" "r \<noteq> []"
  shows "prefix ''.git'' r"
proof -
  from assms obtain a r1 where r: "r = a # r1" by (cases r) auto
  show ?thesis
  proof (cases r1)
    case Nil
    with assms r show ?thesis by simp
  next
    case (Cons b r2)
    show ?thesis
    proof (cases r2)
      case Nil
      with assms r Cons show ?thesis by simp
    next
      case (Cons c r3)
      note c3 = this
      show ?thesis
      proof (cases r3)
        case Nil
        with assms r \<open>r1 = b # r2\<close> c3 show ?thesis by simp
      next
        case (Cons d r4)
        with assms r \<open>r1 = b # r2\<close> c3 show ?thesis by simp
      qed
    qed
  qed
qed

lemma str_replace_absent:
  "\<not> str_includes s pat \<Longrightarrow> str_replace s pat rep = s"
  by (induction s) auto

lemma str_replace_dot_git_suffix:
  "\<not> str_includes r ''.git'' \<Longrightarrow> str_replace (r @ ''.git'') ''.git'' [] = r"
proof (induction r)
  case Nil
  then show ?case by simp
next
  case (Cons a r)
  from Cons.prems have np: "\<not> prefix ''.git'' (a # r)" and ni: "\<not> str_includes r ''.git''"
    by simp_all
  have np': "\<not> prefix ''.git'' (a # (r @ ''.git''))"
    using dot_git_no_straddle[of "a # r"] np by auto
  have "str_replace (a # (r @ ''.git'')) ''.git'' [] =
          (if prefix ''.git'' (a # (r @ ''.git''))
           then [] @ drop (length ''.git'') (a # (r @ ''.git''))
           else a # str_replace (r @ ''.git'') ''.git'' [])"
    by (rule str_replace.simps(2))
  then have "str_replace (a # (r @ ''.git'')) ''.git'' [] = a # str_replace (r @ ''.git'') ''.git'' []"
    by (simp only: np' if_False)
  with Cons.IH[OF ni] show ?case by (simp only: append_Cons)
qed

lemma str_includes_github: "str_includes (''https://github.com/'' @ s) ''github.com''"
  by simp

text \<open>
  Where \<^verbatim>\<open>buildRawUrl\<close> does strip the prefix and the suffix: a URL
  \<^verbatim>\<open>https://github.com/<repo>\<close> or \<^verbatim>\<open>https://github.com/<repo>.git\<close> whose \<^verbatim>\<open><repo>\<close>
  part has no \<^verbatim>\<open>.git\<close> in it.
\<close>

lemma buildRawUrl_single_dot_git:
  assumes "src_url source = Some (''https://github.com/'' @ repo @ tail)"
    and "tail = [] \<or> tail = ''.git''"
    and "\<not> str_includes repo ''.git''"
  shows "GitHubFetcher_buildRawUrl source type name =
           Inr (''https://raw.githubusercontent.com/'' @ repo @ ''/''
                @ (case src_branch source of None \<Rightarrow> ''main'' | Some b \<Rightarrow> b) @ ''/''
                @ (case src_path source of None \<Rightarrow> ''templates'' | Some p \<Rightarrow> p) @ ''/''
                @ pluralizeType type @ ''/'' @ name @ getFileExtension type)"
proof -
  have p: "str_replace (''https://github.com/'' @ repo @ tail) ''https://github.com/'' [] = repo @ tail"
    using str_replace_prefix[of "''https://github.com/''" "repo @ tail" "[]"] by simp
  have q: "str_replace (repo @ tail) ''.git'' [] = repo"
    using assms(2,3) by (auto simp: str_replace_absent str_replace_dot_git_suffix)
  show ?thesis
    unfolding GitHubFetcher_buildRawUrl_def Let_def assms(1) option.case p q
    using str_includes_github[of "repo @ tail"] by simp
qed

section \<open>Concrete runs\<close>

text \<open>
  A run for claim C1: the remote source fails (the network is down, nothing is cached), the
  two local sources both hold \<^verbatim>\<open>Button\<close>; the content is that of the first of them.
\<close>

theorem fetchTemplate_first_success_witness:
  "(\<exists>s\<in>set [ex_remote, ex_first, ex_second].
      \<not> isl (fst (fetcher_fetchFile (createFetcher s [''pkg'']) ''component'' ''Button'' True
                     ex_world_local)))
   \<and> isl (fst (fetcher_fetchFile (createFetcher ex_remote [''pkg'']) ''component'' ''Button'' True
                  ex_world_local))
   \<and> fst (fetcher_fetchFile (createFetcher ex_first [''pkg'']) ''component'' ''Button'' True
             ex_world_local) = Inr ''A''
   \<and> fst (fetcher_fetchFile (createFetcher ex_second [''pkg'']) ''component'' ''Button'' True
             ex_world_local) = Inr ''B''
   \<and> fst (fetchTemplate [ex_remote, ex_first, ex_second] ''component'' ''Button'' [''pkg'']
             ex_world_local) = Inr (''A'', ex_first)"
proof -
  have h: "\<exists>s\<in>set [ex_remote, ex_first, ex_second].
      \<not> isl (fst (fetcher_fetchFile (createFetcher s [''pkg'']) ''component'' ''Button'' True
                     ex_world_local))"
    by code_simp
  have e1: "isl (fst (fetcher_fetchFile (createFetcher ex_remote [''pkg'']) ''component'' ''Button'' True
                  ex_world_local))"
    by code_simp
  have e2: "fst (fetcher_fetchFile (createFetcher ex_first [''pkg'']) ''component'' ''Button'' True
             ex_world_local) = Inr ''A''"
    by code_simp
  have e3: "fst (fetcher_fetchFile (createFetcher ex_second [''pkg'']) ''component'' ''Button'' True
             ex_world_local) = Inr ''B''"
    by code_simp
  from fetchTemplate_first_success[OF h] obtain pre s post content w'
    where sp: "[ex_remote, ex_first, ex_second] = pre @ s # post"
      and fails: "\<forall>x\<in>set pre. isl (fst (fetcher_fetchFile (createFetcher x [''pkg''])
                     ''component'' ''Button'' True ex_world_local))"
      and ok: "fetcher_fetchFile (createFetcher s [''pkg'']) ''component'' ''Button'' True
                 ex_world_local = (Inr content, w')"
      and res: "fetchTemplate [ex_remote, ex_first, ex_second] ''component'' ''Button'' [''pkg'']
                  ex_world_local = (Inr (content, s), w')"
    by blast
  have ne: "ex_remote \<noteq> ex_first" "ex_first \<noteq> ex_second" by code_simp+
  from sp have cases: "(pre = [] \<and> s = ex_remote) \<or> (pre = [ex_remote] \<and> s = ex_first)
      \<or> (pre = [ex_remote, ex_first] \<and> s = ex_second)"
    by (auto simp: Cons_eq_append_conv)
  moreover have "s \<noteq> ex_remote" using ok e1 by auto
  moreover have "\<not> (pre = [ex_remote, ex_first])" using fails e2 by auto
  ultimately have s: "s = ex_first" by blast
  with ok e2 have "content = ''A''" by simp
  with res s have "fst (fetchTemplate [ex_remote, ex_first, ex_second] ''component'' ''Button'' [''pkg'']
             ex_world_local) = Inr (''A'', ex_first)"
    by simp
  with h e1 e2 e3 show ?thesis by blast
qed

text \<open>
  A run for claim C2 on an empty disk with the network down: three sources, three lines.
\<close>

theorem fetchTemplate_all_fail_witness:
  "isl (fst (fetcher_fetchFile (createFetcher ex_remote [''pkg'']) ''component'' ''Button'' True
               ex_world_empty))
   \<and> isl (fst (fetcher_fetchFile (createFetcher ex_registry [''pkg'']) ''component'' ''Button'' True
               ex_world_empty))
   \<and> isl (fst (fetcher_fetchFile (createFetcher ex_bundled [''pkg'']) ''component'' ''Button'' True
               ex_world_empty))
   \<and> fst (fetchTemplate [ex_remote, ex_registry, ex_bundled] ''component'' ''Button'' [''pkg'']
             ex_world_empty) =
       Inl (''Template not found in any source:'' @ newline @
            ''remote: Failed to fetch from GitHub: getaddrinfo ENOTFOUND raw.githubusercontent.com''
            @ newline @
            ''registry: NPM source fetching not yet implemented'' @ newline @
            ''local: Template not found: component/Button'')"
proof -
  have e1: "isl (fst (fetcher_fetchFile (createFetcher ex_remote [''pkg'']) ''component'' ''Button'' True
               ex_world_empty))"
    by code_simp
  have e2: "isl (fst (fetcher_fetchFile (createFetcher ex_registry [''pkg'']) ''component'' ''Button'' True
               ex_world_empty))"
    by code_simp
  have e3: "isl (fst (fetcher_fetchFile (createFetcher ex_bundled [''pkg'']) ''component'' ''Button'' True
               ex_world_empty))"
    by code_simp
  have h: "\<forall>s\<in>set [ex_remote, ex_registry, ex_bundled].
             isl (fst (fetcher_fetchFile (createFetcher s [''pkg'']) ''component'' ''Button'' True
               ex_world_empty))"
    using e1 e2 e3 by simp
  have m1: "src_name ex_remote @ '': '' @ projl (fst (fetcher_fetchFile (createFetcher ex_remote [''pkg''])
               ''component'' ''Button'' True ex_world_empty)) =
            ''remote: Failed to fetch from GitHub: getaddrinfo ENOTFOUND raw.githubusercontent.com''"
    by code_simp
  have m2: "src_name ex_registry @ '': '' @ projl (fst (fetcher_fetchFile (createFetcher ex_registry [''pkg''])
               ''component'' ''Button'' True ex_world_empty)) =
            ''registry: NPM source fetching not yet implemented''"
    by code_simp
  have m3: "src_name ex_bundled @ '': '' @ projl (fst (fetcher_fetchFile (createFetcher ex_bundled [''pkg''])
               ''component'' ''Button'' True ex_world_empty)) =
            ''local: Template not found: component/Button''"
    by code_simp
  have "fst (fetchTemplate [ex_remote, ex_registry, ex_bundled] ''component'' ''Button'' [''pkg'']
             ex_world_empty) =
       Inl (''Template not found in any source:'' @ newline @
            ''remote: Failed to fetch from GitHub: getaddrinfo ENOTFOUND raw.githubusercontent.com''
            @ newline @
            ''registry: NPM source fetching not yet implemented'' @ newline @
            ''local: Template not found: component/Button'')"
    unfolding fetchTemplate_all_fail[OF h] using m1 m2 m3 by simp
  with e1 e2 e3 show ?thesis by blast
qed

text \<open>
  A run for claim C4: written at time 1000, the entry is served one millisecond before the
  ttl has passed and is a miss when the age equals the ttl; a name never cached is a miss.
\<close>

theorem cache_round_trip_witness:
  "fst (setCachedFile ex_remote ''component'' ''Button'' ''body'' ex_world_empty) = Inr ()
   \<and> getCachedFile
        ((snd (setCachedFile ex_remote ''component'' ''Button'' ''body'' ex_world_empty))
           \<lparr>now := 1000 + 3599999\<rparr>)
        ex_remote ''component'' ''Button'' (Some 3600000) = Inr (Some ''body'')
   \<and> getCachedFile
        ((snd (setCachedFile ex_remote ''component'' ''Button'' ''body'' ex_world_empty))
           \<lparr>now := 1000 + 3600000\<rparr>)
        ex_remote ''component'' ''Button'' (Some 3600000) = Inr None
   \<and> \<not> pathExists (fs ex_world_empty) (getCachePath ex_world_empty ex_remote ''hook'' ''useAuth'')
   \<and> getCachedFile ex_world_empty ex_remote ''hook'' ''useAuth'' (Some 3600000) = Inr None"
proof -
  obtain r w' where r: "setCachedFile ex_remote ''component'' ''Button'' ''body'' ex_world_empty = (r, w')"
    by (cases "setCachedFile ex_remote ''component'' ''Button'' ''body'' ex_world_empty")
  have ok: "fst (setCachedFile ex_remote ''component'' ''Button'' ''body'' ex_world_empty) = Inr ()"
    by code_simp
  with r have s: "setCachedFile ex_remote ''component'' ''Button'' ''body'' ex_world_empty = (Inr (), w')"
    by simp
  have absent: "\<not> pathExists (fs ex_world_empty) (getCachePath ex_world_empty ex_remote ''hook'' ''useAuth'')"
    by code_simp
  have n: "now ex_world_empty = 1000" by (simp add: ex_world_empty_def)
  note rt = cache_round_trip[of ex_remote "''component''" "''Button''" "''body''" ex_world_empty w'
      ex_world_empty]
  from rt s have hit: "getCachedFile (w'\<lparr>now := 1000 + 3599999\<rparr>) ex_remote ''component'' ''Button''
       (Some 3600000) = Inr (Some ''body'')"
    by (simp add: n)
  from rt s have miss: "getCachedFile (w'\<lparr>now := 1000 + 3600000\<rparr>) ex_remote ''component'' ''Button''
       (Some 3600000) = Inr None"
    by (simp add: n)
  from cache_round_trip[of ex_remote "''hook''" "''useAuth''" "''body''" ex_world_empty w'
      ex_world_empty] absent
  have none: "getCachedFile ex_world_empty ex_remote ''hook'' ''useAuth'' (Some 3600000) = Inr None"
    by blast
  from ok hit miss absent none show ?thesis by (simp add: s)
qed

text \<open>
  Claim C9 as stated fails for a name with a separator and for the empty name: the file
  \<^verbatim>\<open>ui/Button.tsx\<close> lands in a subdirectory \<^verbatim>\<open>ui\<close>, which the listing filters out, and
  the file \<^verbatim>\<open>.tsx\<close> is listed under the name \<^verbatim>\<open>.tsx\<close>.
\<close>

theorem listCachedTemplates_every_name_counterexample:
  "fst (setCachedFile ex_remote ''component'' ''ui/Button'' ''body'' ex_world_empty) = Inr ()
   \<and> listCachedTemplates
        (snd (setCachedFile ex_remote ''component'' ''ui/Button'' ''body'' ex_world_empty))
        ex_remote ''component'' = Inr []
   \<and> fst (setCachedFile ex_remote ''component'' [] ''body'' ex_world_empty) = Inr ()
   \<and> listCachedTemplates
        (snd (setCachedFile ex_remote ''component'' [] ''body'' ex_world_empty))
        ex_remote ''component'' = Inr [''.tsx'']"
  by code_simp

text \<open>A run for the amended claim C9.\<close>

theorem listCachedTemplates_after_set_witness:
  "fst (setCachedFile ex_remote ''component'' ''Button'' ''body'' ex_world_empty) = Inr ()
   \<and> ''Button'' \<noteq> [] \<and> CHR ''/'' \<notin> set ''Button''
   \<and> listCachedTemplates
        (snd (setCachedFile ex_remote ''component'' ''Button'' ''body'' ex_world_empty))
        ex_remote ''component'' = Inr [''Button'']
   \<and> readdir (fs ex_world_cached)
        (path_join (getCacheDir ex_world_cached) [src_name ex_remote, pluralizeType ''component''])
        = Inr [''Button.tsx'']
   \<and> listCachedTemplates ex_world_cached ex_remote ''component'' = Inr [''Button'']
   \<and> \<not> pathExists (fs ex_world_cached)
        (path_join (getCacheDir ex_world_cached) [src_name ex_remote, pluralizeType ''hook''])
   \<and> listCachedTemplates ex_world_cached ex_remote ''hook'' = Inr []"
proof -
  obtain r w' where r: "setCachedFile ex_remote ''component'' ''Button'' ''body'' ex_world_empty = (r, w')"
    by (cases "setCachedFile ex_remote ''component'' ''Button'' ''body'' ex_world_empty")
  have ok: "fst (setCachedFile ex_remote ''component'' ''Button'' ''body'' ex_world_empty) = Inr ()"
    by code_simp
  with r have s: "setCachedFile ex_remote ''component'' ''Button'' ''body'' ex_world_empty = (Inr (), w')"
    by simp
  have nm: "''Button'' \<noteq> [] \<and> CHR ''/'' \<notin> set ''Button''" by simp
  have ls: "listCachedTemplates
        (snd (setCachedFile ex_remote ''component'' ''Button'' ''body'' ex_world_empty))
        ex_remote ''component'' = Inr [''Button'']"
    by code_simp
  have rd: "readdir (fs ex_world_cached)
        (path_join (getCacheDir ex_world_cached) [src_name ex_remote, pluralizeType ''component''])
        = Inr [''Button.tsx'']"
    by code_simp
  have ab: "\<not> pathExists (fs ex_world_cached)
        (path_join (getCacheDir ex_world_cached) [src_name ex_remote, pluralizeType ''hook''])"
    by code_simp
  note t1 = listCachedTemplates_after_set[of ex_remote "''component''" "''Button''" "''body''"
      ex_world_empty w' ex_world_cached]
  note t2 = listCachedTemplates_after_set[of ex_remote "''hook''" "''Button''" "''body''"
      ex_world_empty w' ex_world_cached]
  from t1 s nm obtain names where "listCachedTemplates w' ex_remote ''component'' = Inr names"
      "''Button'' \<in> set names"
    by blast
  from t1 rd have l2: "listCachedTemplates ex_world_cached ex_remote ''component'' =
      Inr (map path_parse_name
             (filter (\<lambda>file. str_endsWith file ''.ts'' \<or> str_endsWith file ''.tsx'') [''Button.tsx'']))"
    by blast
  have "map path_parse_name
             (filter (\<lambda>file. str_endsWith file ''.ts'' \<or> str_endsWith file ''.tsx'') [''Button.tsx''])
        = [''Button'']"
    by code_simp
  with l2 have l2': "listCachedTemplates ex_world_cached ex_remote ''component'' = Inr [''Button'']"
    by simp
  from t2 ab have l3: "listCachedTemplates ex_world_cached ex_remote ''hook'' = Inr []"
    by blast
  from ok nm ls rd l2' ab l3 show ?thesis by blast
qed

text \<open>
  Claim C3 as stated fails: with a valid cache entry under the source's name, the npm
  fetcher returns content; and its listing succeeds, with the cached names, with the empty
  list when the cache is not consulted, and with the empty list on a disk without a cache.
\<close>

theorem NpmFetcher_always_fails_counterexample:
  "NpmFetcher_fetchFile ex_registry ''component'' ''Button'' True ex_world_cached
     = Inr ''cached body''
   \<and> NpmFetcher_listTemplates ex_registry ''component'' True ex_world_cached = Inr [''Button'']
   \<and> NpmFetcher_listTemplates ex_registry ''component'' False ex_world_cached = Inr []
   \<and> NpmFetcher_listTemplates ex_registry ''component'' True ex_world_empty = Inr []"
  by code_simp

text \<open>
  Runs for the amended claim C3: without the cache, on an empty disk, with a fresh entry,
  with a stale entry, with a directory at the cache path, and three listings.
\<close>

theorem NpmFetcher_decided_by_cache_witness:
  "NpmFetcher_fetchFile ex_registry ''component'' ''Button'' False ex_world_cached
       = Inl ''NPM source fetching not yet implemented''
   \<and> NpmFetcher_fetchFile ex_registry ''component'' ''Button'' True ex_world_empty
       = Inl ''NPM source fetching not yet implemented''
   \<and> NpmFetcher_fetchFile ex_registry ''component'' ''Button'' True ex_world_cached
       = Inr ''cached body''
   \<and> NpmFetcher_fetchFile ex_registry ''component'' ''Button'' True
        (ex_world_cached\<lparr>now := 3600000\<rparr>)
       = Inl ''NPM source fetching not yet implemented''
   \<and> NpmFetcher_fetchFile ex_registry ''component'' ''Button'' True ex_world_cached_dir
       = Inl ''EISDIR: illegal operation on a directory''
   \<and> NpmFetcher_listTemplates ex_registry ''component'' True ex_world_cached = Inr [''Button'']
   \<and> NpmFetcher_listTemplates ex_registry ''util'' True ex_world_cached = Inr []
   \<and> NpmFetcher_listTemplates ex_registry ''hook'' True ex_world_cached_dir
       = Inl ''ENOTDIR: not a directory''"
proof -
  have k2: "lookup (fs ex_world_empty) (getCachePath ex_world_empty ex_registry ''component'' ''Button'')
              = None"
    by code_simp
  have k3: "lookup (fs ex_world_cached) (getCachePath ex_world_cached ex_registry ''component'' ''Button'')
              = Some (File ''cached body'' 0)"
    by code_simp
  have k5: "lookup (fs ex_world_cached_dir)
              (getCachePath ex_world_cached_dir ex_registry ''component'' ''Button'')
              = Some (Dir 0 [])"
    by code_simp
  have d6: "lookup (fs ex_world_cached)
              (path_join (getCacheDir ex_world_cached) [src_name ex_registry, pluralizeType ''component''])
              = Some (Dir 0 [(''Button.tsx'', File ''cached body'' 0)])"
    by code_simp
  have d7: "lookup (fs ex_world_cached)
              (path_join (getCacheDir ex_world_cached) [src_name ex_registry, pluralizeType ''util''])
              = None"
    by code_simp
  have d8: "lookup (fs ex_world_cached_dir)
              (path_join (getCacheDir ex_world_cached_dir) [src_name ex_registry, pluralizeType ''hook''])
              = Some (File ''not a directory'' 0)"
    by code_simp
  have n3: "now ex_world_cached = 5000" by (simp add: ex_world_cached_def)
  have n5: "now ex_world_cached_dir = 5000" by (simp add: ex_world_cached_dir_def)
  have e: "map path_parse_name
             (filter (\<lambda>file. str_endsWith file ''.ts'' \<or> str_endsWith file ''.tsx'') [''Button.tsx''])
           = [''Button'']"
    by code_simp
  note a1 = NpmFetcher_decided_by_cache[of ex_registry "''component''" "''Button''" False ex_world_cached]
  note a2 = NpmFetcher_decided_by_cache[of ex_registry "''component''" "''Button''" True ex_world_empty]
  note a3 = NpmFetcher_decided_by_cache[of ex_registry "''component''" "''Button''" True ex_world_cached]
  note a4 = NpmFetcher_decided_by_cache[of ex_registry "''component''" "''Button''" True
      "ex_world_cached\<lparr>now := 3600000\<rparr>"]
  note a5 = NpmFetcher_decided_by_cache[of ex_registry "''component''" "''Button''" True
      ex_world_cached_dir]
  note a6 = NpmFetcher_decided_by_cache[of ex_registry "''util''" "''Button''" True ex_world_cached]
  note a7 = NpmFetcher_decided_by_cache[of ex_registry "''hook''" "''Button''" True
      ex_world_cached_dir]
  have r1: "NpmFetcher_fetchFile ex_registry ''component'' ''Button'' False ex_world_cached
       = Inl ''NPM source fetching not yet implemented''"
    using a1 by simp
  have r2: "NpmFetcher_fetchFile ex_registry ''component'' ''Button'' True ex_world_empty
       = Inl ''NPM source fetching not yet implemented''"
    using a2 by (simp add: k2)
  have r3: "NpmFetcher_fetchFile ex_registry ''component'' ''Button'' True ex_world_cached
       = Inr ''cached body''"
    using a3 by (simp add: k3 n3)
  have r4: "NpmFetcher_fetchFile ex_registry ''component'' ''Button'' True
        (ex_world_cached\<lparr>now := 3600000\<rparr>)
       = Inl ''NPM source fetching not yet implemented''"
    using a4 by (simp add: k3)
  have r5: "NpmFetcher_fetchFile ex_registry ''component'' ''Button'' True ex_world_cached_dir
       = Inl ''EISDIR: illegal operation on a directory''"
    using a5 by (simp add: k5 n5)
  have r6: "NpmFetcher_listTemplates ex_registry ''component'' True ex_world_cached = Inr [''Button'']"
    using a3 e by (simp add: d6)
  have r7: "NpmFetcher_listTemplates ex_registry ''util'' True ex_world_cached = Inr []"
    using a6 by (simp add: d7)
  have r8: "NpmFetcher_listTemplates ex_registry ''hook'' True ex_world_cached_dir
       = Inl ''ENOTDIR: not a directory''"
    using a7 by (simp add: d8)
  from r1 r2 r3 r4 r5 r6 r7 r8 show ?thesis by blast
qed

text \<open>
  Claim C5 as stated fails: under a configured ttl of 1000 an entry of age 5000 is still
  served (the network is down, so the content can only be the cached one), and under a
  configured ttl of 7200000 an entry of age 3600000 is no longer valid.
\<close>

theorem configured_ttl_counterexample:
  "cache_ttl (cfg_cache (loadConfig (ex_store_ttl 1000))) = 1000
   \<and> cfg_sources (loadConfig (ex_store_ttl 1000)) = [ex_remote]
   \<and> lookup (fs ex_world_cached) (getCachePath ex_world_cached ex_remote ''component'' ''Button'')
       = Some (File ''cached body'' 0)
   \<and> now ex_world_cached - 0 = 5000
   \<and> fst (add_resolve (ex_store_ttl 1000) ''component'' ''Button'' [''pkg''] ex_world_cached)
       = Inr (''cached body'', ex_remote)
   \<and> cache_ttl (cfg_cache (loadConfig (ex_store_ttl 7200000))) = 7200000
   \<and> isl (fst (add_resolve (ex_store_ttl 7200000) ''component'' ''Button'' [''pkg'']
                  (ex_world_cached\<lparr>now := 3600000\<rparr>)))"
  by code_simp

text \<open>A run for the amended claim C5.\<close>

theorem GitHubFetcher_fixed_ttl_witness:
  "lookup (fs ex_world_cached) (getCachePath ex_world_cached ex_remote ''component'' ''Button'')
       = Some (File ''cached body'' 0)
   \<and> ''cached body'' \<noteq> []
   \<and> fst (GitHubFetcher_fetchFile ex_remote ''component'' ''Button'' True ex_world_cached)
       = Inr ''cached body''
   \<and> fst (GitHubFetcher_fetchFile ex_remote ''component'' ''Button'' True
             (ex_world_cached\<lparr>now := 3600000\<rparr>))
       = fst (GitHubFetcher_fetchFile ex_remote ''component'' ''Button'' False
             (ex_world_cached\<lparr>now := 3600000\<rparr>))
   \<and> cfg_sources (loadConfig (ex_store_ttl 1000)) = cfg_sources (loadConfig (ex_store_ttl 7200000))
   \<and> cache_ttl (cfg_cache (loadConfig (ex_store_ttl 1000)))
       \<noteq> cache_ttl (cfg_cache (loadConfig (ex_store_ttl 7200000)))
   \<and> fst (add_resolve (ex_store_ttl 1000) ''component'' ''Button'' [''pkg''] ex_world_cached)
       = fst (add_resolve (ex_store_ttl 7200000) ''component'' ''Button'' [''pkg''] ex_world_cached)"
proof -
  have l: "lookup (fs ex_world_cached) (getCachePath ex_world_cached ex_remote ''component'' ''Button'')
       = Some (File ''cached body'' 0)"
    by code_simp
  have l': "lookup (fs (ex_world_cached\<lparr>now := 3600000\<rparr>))
              (getCachePath (ex_world_cached\<lparr>now := 3600000\<rparr>) ex_remote ''component'' ''Button'')
       = Some (File ''cached body'' 0)"
    by code_simp
  have ne: "''cached body'' \<noteq> []" by simp
  have n: "now ex_world_cached = 5000" by (simp add: ex_world_cached_def)
  from GitHubFetcher_fixed_ttl[of ex_world_cached ex_remote "''component''" "''Button''"
      "''cached body''" 0] l ne n
  have a: "fst (GitHubFetcher_fetchFile ex_remote ''component'' ''Button'' True ex_world_cached)
       = Inr ''cached body''"
    by simp
  from GitHubFetcher_fixed_ttl[of "ex_world_cached\<lparr>now := 3600000\<rparr>" ex_remote "''component''"
      "''Button''" "''cached body''" 0] l' ne
  have b: "fst (GitHubFetcher_fetchFile ex_remote ''component'' ''Button'' True
             (ex_world_cached\<lparr>now := 3600000\<rparr>))
       = fst (GitHubFetcher_fetchFile ex_remote ''component'' ''Button'' False
             (ex_world_cached\<lparr>now := 3600000\<rparr>))"
    by simp
  have s: "cfg_sources (loadConfig (ex_store_ttl 1000)) = cfg_sources (loadConfig (ex_store_ttl 7200000))"
    by code_simp
  have t: "cache_ttl (cfg_cache (loadConfig (ex_store_ttl 1000)))
       \<noteq> cache_ttl (cfg_cache (loadConfig (ex_store_ttl 7200000)))"
    by code_simp
  from GitHubFetcher_fixed_ttl[of ex_world_cached ex_remote "''component''" "''Button''"
      "''cached body''" 0 "ex_store_ttl 1000" "ex_store_ttl 7200000" "[''pkg'']"] s
  have "add_resolve (ex_store_ttl 1000) ''component'' ''Button'' [''pkg''] ex_world_cached
       = add_resolve (ex_store_ttl 7200000) ''component'' ''Button'' [''pkg''] ex_world_cached"
    by blast
  then have c: "fst (add_resolve (ex_store_ttl 1000) ''component'' ''Button'' [''pkg''] ex_world_cached)
       = fst (add_resolve (ex_store_ttl 7200000) ''component'' ''Button'' [''pkg''] ex_world_cached)"
    by simp
  from l ne a b s t c show ?thesis by blast
qed

text \<open>
  Claim C8 at the repository URL \<^verbatim>\<open>https://github.com/octocat/octocat.github.io.git\<close>:
  \<^verbatim>\<open>replace('.git', '')\<close> removes the first \<^verbatim>\<open>.git\<close>, the one inside \<^verbatim>\<open>.github\<close>, and
  keeps the trailing suffix, so the raw URL is not the one of \<^verbatim>\<open>octocat/octocat.github.io\<close>.
\<close>

theorem buildRawUrl_strips_first_dot_git:
  "src_url ex_pages = Some ''https://github.com/octocat/octocat.github.io.git''
   \<and> GitHubFetcher_buildRawUrl ex_pages ''component'' ''Button'' =
     Inr ''https://raw.githubusercontent.com/octocat/octocathub.io.git/main/templates/components/Button.tsx''
   \<and> GitHubFetcher_buildRawUrl ex_pages ''component'' ''Button'' \<noteq>
     Inr ''https://raw.githubusercontent.com/octocat/octocat.github.io/main/templates/components/Button.tsx''"
  by code_simp

end
